theory Spec2Isabelle
  imports Complex_Main
begin

section \<open>Python values, errors and list indexing\<close>

text \<open>
  The modules \<^verbatim>\<open>oemof/solph/plumbing.py\<close> and \<^verbatim>\<open>oemof/solph/components.py\<close> are
  embedded as HOL functions. Every exception the Python raises is a value \<open>Inl e\<close> of a
  result type \<open>error + 'a\<close>. Numbers that Python holds as floats are modelled as reals:
  the constraints are handed to the solver as symbolic relations, and their meaning is
  the meaning over the reals.
\<close>

datatype error =
    IndexError
  | KeyError
  | TypeError
  | NameError
  | ZeroDivisionError
  | LinAlgError
  | ValueError string
  | AttributeError string

text \<open>
  \<^verbatim>\<open>xs[key]\<close> on a Python list with an integer key: a key in \<open>[0, len)\<close> reads from the
  front, a key in \<open>[-len, 0)\<close> reads from the back, every other key raises IndexError.
\<close>

definition list_getitem :: "'a list \<Rightarrow> int \<Rightarrow> error + 'a" where
  "list_getitem xs key =
     (if 0 \<le> key \<and> key < int (length xs) then Inr (xs ! nat key)
      else if - int (length xs) \<le> key \<and> key < 0 then Inr (xs ! nat (int (length xs) + key))
      else Inl IndexError)"

text \<open>\<^verbatim>\<open>xs[key] = value\<close> on a Python list: the same range of keys, the list updated.\<close>

definition list_setitem :: "'a list \<Rightarrow> int \<Rightarrow> 'a \<Rightarrow> error + 'a list" where
  "list_setitem xs key v =
     (if 0 \<le> key \<and> key < int (length xs) then Inr (xs[nat key := v])
      else if - int (length xs) \<le> key \<and> key < 0
        then Inr (xs[nat (int (length xs) + key) := v])
      else Inl IndexError)"

text \<open>\<^verbatim>\<open>[x] * n\<close>: the empty list when \<open>n \<le> 0\<close>.\<close>

definition list_repeat :: "'a \<Rightarrow> int \<Rightarrow> 'a list" where
  "list_repeat x n = replicate (nat n) x"

section \<open>plumbing.py: the class \<^verbatim>\<open>_Sequence\<close>\<close>

text \<open>
  \<^verbatim>\<open>_Sequence\<close> is a \<^verbatim>\<open>UserList\<close>: the materialised list \<^verbatim>\<open>self.data\<close> and the
  attribute \<^verbatim>\<open>self.default\<close>. The record is named \<open>uSequence\<close> (a type name cannot
  start with an underscore) and the field \<open>default_value\<close> (\<open>default\<close> is a constant
  of HOL).
\<close>

record 'a uSequence =
  data :: "'a list"
  default_value :: 'a

text \<open>\<^verbatim>\<open>_Sequence(default=d)\<close>, what \<^verbatim>\<open>Sequence(scalar)\<close> returns: nothing materialised.\<close>

definition Sequence_scalar :: "'a \<Rightarrow> 'a uSequence" where
  "Sequence_scalar d = \<lparr>data = [], default_value = d\<rparr>"

text \<open>
  \<^verbatim>\<open>__getitem__\<close>: the read of \<^verbatim>\<open>self.data[key]\<close>; on IndexError the list is extended
  by \<^verbatim>\<open>[self.default] * (key - len(self.data) + 1)\<close> and read again. The second read is
  not guarded: its IndexError leaves the method. The result is the value or the error,
  with the object as the call leaves it.
\<close>

definition getitem :: "'a uSequence \<Rightarrow> int \<Rightarrow> (error + 'a) \<times> 'a uSequence" where
  "getitem s key =
     (case list_getitem (data s) key of
        Inr v \<Rightarrow> (Inr v, s)
      | Inl IndexError \<Rightarrow>
          (let s' = s\<lparr>data := data s @
                      list_repeat (default_value s) (key - int (length (data s)) + 1)\<rparr>
           in (list_getitem (data s') key, s'))
      | Inl e \<Rightarrow> (Inl e, s))"

text \<open>\<^verbatim>\<open>__setitem__\<close>: the same shape; \<open>None\<close> stands for a normal return.\<close>

definition setitem :: "'a uSequence \<Rightarrow> int \<Rightarrow> 'a \<Rightarrow> error option \<times> 'a uSequence" where
  "setitem s key v =
     (case list_setitem (data s) key v of
        Inr xs \<Rightarrow> (None, s\<lparr>data := xs\<rparr>)
      | Inl IndexError \<Rightarrow>
          (let s' = s\<lparr>data := data s @
                      list_repeat (default_value s) (key - int (length (data s)) + 1)\<rparr>
           in (case list_setitem (data s') key v of
                 Inr xs \<Rightarrow> (None, s'\<lparr>data := xs\<rparr>)
               | Inl e \<Rightarrow> (Some e, s')))
      | Inl e \<Rightarrow> (Some e, s))"

text \<open>\<^verbatim>\<open>len(s)\<close> of a \<^verbatim>\<open>UserList\<close> is the length of its data.\<close>

definition len :: "'a uSequence \<Rightarrow> nat" where
  "len s = length (data s)"

text \<open>A sequence is constant when every materialised element is its default.\<close>

definition is_constant :: "'a uSequence \<Rightarrow> bool" where
  "is_constant s = list_all (\<lambda>x. x = default_value s) (data s)"

section \<open>plumbing.py: the time index of \<^verbatim>\<open>OperationalModel\<close>\<close>

text \<open>
  \<^verbatim>\<open>self.timesteps = range(len(self.timeindex))\<close>, for a time index of \<open>N\<close> entries.
\<close>

definition timesteps :: "nat \<Rightarrow> int list" where
  "timesteps N = map int [0..<N]"

text \<open>
  Lines 154 to 157 of \<^verbatim>\<open>__init__\<close>: the list \<^verbatim>\<open>[x - 1 for x in self.timesteps]\<close>, its
  first element overwritten by \<^verbatim>\<open>self.timesteps[-1]\<close> (the right-hand side is evaluated
  first), zipped with the ordered set \<^verbatim>\<open>TIMESTEPS\<close> into a dictionary.
\<close>

definition previous_timesteps :: "nat \<Rightarrow> error + (int \<rightharpoonup> int)" where
  "previous_timesteps N =
     (case list_getitem (timesteps N) (- 1) of
        Inl e \<Rightarrow> Inl e
      | Inr lst \<Rightarrow>
          (case list_setitem (map (\<lambda>x. x - 1) (timesteps N)) 0 lst of
             Inl e \<Rightarrow> Inl e
           | Inr prev \<Rightarrow> Inr (map_of (zip (timesteps N) prev))))"

section \<open>Sequencing of calls that may raise\<close>

text \<open>\<open>and_then r f\<close>: the statement after a call that returned; a raise skips it.\<close>

definition and_then :: "error + 'a \<Rightarrow> ('a \<Rightarrow> error + 'b) \<Rightarrow> error + 'b" where
  "and_then r f = (case r of Inl e \<Rightarrow> Inl e | Inr x \<Rightarrow> f x)"

text \<open>\<^verbatim>\<open>d[key]\<close> on a dictionary: KeyError for a key that is not there.\<close>

definition dict_getitem :: "('k \<rightharpoonup> 'v) \<Rightarrow> 'k \<Rightarrow> error + 'v" where
  "dict_getitem d key = (case d key of None \<Rightarrow> Inl KeyError | Some v \<Rightarrow> Inr v)"

text \<open>\<^verbatim>\<open>x / y\<close> on Python numbers: ZeroDivisionError for a zero divisor.\<close>

definition py_div :: "real \<Rightarrow> real \<Rightarrow> error + real" where
  "py_div x y = (if y = 0 then Inl ZeroDivisionError else Inr (x / y))"

section \<open>Parameters: a number, a list, or a wrapped scalar\<close>

text \<open>
  A parameter of a component is a plain number, a list of numbers, or a \<^verbatim>\<open>_Sequence\<close>.
  \<^verbatim>\<open>Sequence(x)\<close> of plumbing.py (imported by components.py as \<^verbatim>\<open>solph_sequence\<close>)
  returns an iterable unchanged and wraps a number.
\<close>

datatype seqlike =
    PyNumber real
  | PyList "real list"
  | PySequence "real uSequence"

definition Sequence :: "seqlike \<Rightarrow> seqlike" where
  "Sequence sequence_or_scalar =
     (case sequence_or_scalar of
        PyNumber d \<Rightarrow> PySequence (Sequence_scalar d)
      | other \<Rightarrow> other)"

text \<open>
  \<^verbatim>\<open>a[t]\<close>: a number is not subscriptable (TypeError), a list is indexed as a list, a
  wrapped scalar by \<^verbatim>\<open>__getitem__\<close>. The read of a wrapped scalar also materialises it;
  \<open>getitem_after_getitem\<close> below shows that this never changes what a later read at an
  index \<open>k \<ge> 0\<close> returns, so the rules that only read parameters at timesteps are
  modelled with the value alone.
\<close>

definition subscript :: "seqlike \<Rightarrow> int \<Rightarrow> error + real" where
  "subscript a t =
     (case a of
        PyNumber x \<Rightarrow> Inl TypeError
      | PyList xs \<Rightarrow> list_getitem xs t
      | PySequence s \<Rightarrow> fst (getitem s t))"

text \<open>\<^verbatim>\<open>len(a)\<close>: a number has no length (TypeError).\<close>

definition py_len :: "seqlike \<Rightarrow> error + nat" where
  "py_len a =
     (case a of
        PyNumber x \<Rightarrow> Inl TypeError
      | PyList xs \<Rightarrow> Inr (length xs)
      | PySequence s \<Rightarrow> Inr (len s))"

text \<open>\<^verbatim>\<open>isinstance(a, (int, float))\<close>.\<close>

definition is_number :: "seqlike \<Rightarrow> bool" where
  "is_number a = (case a of PyNumber x \<Rightarrow> True | other \<Rightarrow> False)"

section \<open>components.py: \<^verbatim>\<open>GenericStorage\<close>\<close>

text \<open>
  Nodes are identified by their labels. A \<^verbatim>\<open>Flow\<close> is an object that the storage's
  constructor mutates, and one flow object may stand in several dictionaries, so flows
  live in a store and the dictionaries \<^verbatim>\<open>inputs\<close> and \<^verbatim>\<open>outputs\<close> hold references, in
  insertion order. The classes \<^verbatim>\<open>Flow\<close> and \<^verbatim>\<open>Investment\<close> are not in the two modules:
  a flow is the record of the two attributes the constructor touches, and the type of
  investment objects is a parameter \<open>'inv\<close>, with \<open>Investment_new\<close> for the object that
  \<^verbatim>\<open>Investment()\<close> returns. \<open>None\<close> in \<open>flow_investment\<close> is any value that is not an
  instance of \<^verbatim>\<open>Investment\<close>.
\<close>

type_synonym label = string
type_synonym ref = nat

record 'inv Flow =
  nominal_value :: "real option"
  flow_investment :: "'inv option"

type_synonym 'inv flow_store = "ref \<Rightarrow> 'inv Flow"

text \<open>The keyword arguments of the constructor; \<open>None\<close> is an argument not passed.\<close>

record 'inv GenericStorage_kwargs =
  kw_label :: label
  kw_inputs :: "(label \<times> ref) list"
  kw_outputs :: "(label \<times> ref) list"
  kw_nominal_capacity :: "real option"
  kw_nominal_input_capacity_ratio :: "real option"
  kw_nominal_output_capacity_ratio :: "real option"
  kw_initial_capacity :: "real option"
  kw_capacity_loss :: "seqlike option"
  kw_inflow_conversion_factor :: "seqlike option"
  kw_outflow_conversion_factor :: "seqlike option"
  kw_capacity_max :: "seqlike option"
  kw_capacity_min :: "seqlike option"
  kw_investment :: "'inv option"

record 'inv GenericStorage =
  label :: label
  inputs :: "(label \<times> ref) list"
  outputs :: "(label \<times> ref) list"
  nominal_capacity :: "real option"
  nominal_input_capacity_ratio :: "real option"
  nominal_output_capacity_ratio :: "real option"
  initial_capacity :: "real option"
  capacity_loss :: seqlike
  inflow_conversion_factor :: seqlike
  outflow_conversion_factor :: seqlike
  capacity_max :: seqlike
  capacity_min :: seqlike
  investment :: "'inv option"

text \<open>\<^verbatim>\<open>kwargs.get(key, default)\<close> wrapped by \<^verbatim>\<open>solph_sequence\<close>.\<close>

definition sequence_kwarg :: "seqlike option \<Rightarrow> real \<Rightarrow> seqlike" where
  "sequence_kwarg v d = Sequence (case v of None \<Rightarrow> PyNumber d | Some x \<Rightarrow> x)"

definition e_no_nv :: "string \<Rightarrow> string" where
  "e_no_nv what = ''If an investment object is defined the invest variable replaces the ''
     @ what"

definition e_duplicate :: string where
  "e_duplicate = ''Duplicate definition.''"

text \<open>
  One pass of the body of \<^verbatim>\<open>for flow in self.inputs.values()\<close> (lines 138 to 150), and
  of the loop over the outputs (lines 153 to 165), which differs only in the ratio it
  reads. \<open>ivm\<close> is \<^verbatim>\<open>self.investment\<close>, tested for truth: an investment object is true,
  \<^verbatim>\<open>None\<close> is false. \<^verbatim>\<open>ratio * self.nominal_capacity\<close> with no nominal capacity is a
  TypeError.
\<close>

definition check_flow ::
  "'inv \<Rightarrow> 'inv option \<Rightarrow> real option \<Rightarrow> real option \<Rightarrow> ref \<Rightarrow> 'inv flow_store
     \<Rightarrow> error + 'inv flow_store" where
  "check_flow Investment_new ivm ratio capacity r h =
     (if ivm \<noteq> None \<and> nominal_value (h r) \<noteq> None
        then Inl (AttributeError (e_no_nv ''nominal_value''))
      else if nominal_value (h r) \<noteq> None \<and> ratio \<noteq> None
        then Inl (AttributeError e_duplicate)
      else and_then
        (if ivm = None \<and> ratio \<noteq> None
           then (case (ratio, capacity) of
                   (Some x, Some c) \<Rightarrow> Inr (h(r := (h r)\<lparr>nominal_value := Some (x * c)\<rparr>))
                 | other \<Rightarrow> Inl TypeError)
         else Inr h)
        (\<lambda>h1. if ivm \<noteq> None \<and> flow_investment (h1 r) = None
                then Inr (h1(r := (h1 r)\<lparr>flow_investment := Some Investment_new\<rparr>))
              else Inr h1))"

fun check_flows ::
  "'inv \<Rightarrow> 'inv option \<Rightarrow> real option \<Rightarrow> real option \<Rightarrow> ref list \<Rightarrow> 'inv flow_store
     \<Rightarrow> error + 'inv flow_store" where
  "check_flows Investment_new ivm ratio capacity [] h = Inr h"
| "check_flows Investment_new ivm ratio capacity (r # rs) h =
     and_then (check_flow Investment_new ivm ratio capacity r h)
       (check_flows Investment_new ivm ratio capacity rs)"

text \<open>
  \<^verbatim>\<open>GenericStorage.__init__\<close>: the attributes, the check of the nominal capacity against
  the investment (line 134), then the two loops. It returns the object and the store of
  flows as the loops leave it.
\<close>

definition GenericStorage_init ::
  "'inv \<Rightarrow> 'inv GenericStorage_kwargs \<Rightarrow> 'inv flow_store
     \<Rightarrow> error + ('inv GenericStorage \<times> 'inv flow_store)" where
  "GenericStorage_init Investment_new kw h =
     (let self = \<lparr>label = kw_label kw,
                  inputs = kw_inputs kw,
                  outputs = kw_outputs kw,
                  nominal_capacity = kw_nominal_capacity kw,
                  nominal_input_capacity_ratio = kw_nominal_input_capacity_ratio kw,
                  nominal_output_capacity_ratio = kw_nominal_output_capacity_ratio kw,
                  initial_capacity = kw_initial_capacity kw,
                  capacity_loss = sequence_kwarg (kw_capacity_loss kw) 0,
                  inflow_conversion_factor = sequence_kwarg (kw_inflow_conversion_factor kw) 1,
                  outflow_conversion_factor = sequence_kwarg (kw_outflow_conversion_factor kw) 1,
                  capacity_max = sequence_kwarg (kw_capacity_max kw) 1,
                  capacity_min = sequence_kwarg (kw_capacity_min kw) 0,
                  investment = kw_investment kw\<rparr>
      in if investment self \<noteq> None \<and> nominal_capacity self \<noteq> None
           then Inl (AttributeError (e_no_nv ''nominal_capacity''))
         else and_then
           (check_flows Investment_new (investment self) (nominal_input_capacity_ratio self)
              (nominal_capacity self) (map snd (inputs self)) h)
           (\<lambda>h1. and_then
              (check_flows Investment_new (investment self)
                 (nominal_output_capacity_ratio self) (nominal_capacity self)
                 (map snd (outputs self)) h1)
              (\<lambda>h2. Inr (self, h2))))"

text \<open>What the loops do to a flow of a storage with an investment.\<close>

definition attach_investment :: "'inv \<Rightarrow> 'inv Flow \<Rightarrow> 'inv Flow" where
  "attach_investment Investment_new f =
     (if flow_investment f = None then f\<lparr>flow_investment := Some Investment_new\<rparr> else f)"

text \<open>
  The examples use for \<open>'inv\<close> the record of the two attributes of an investment object
  that components.py reads (\<^verbatim>\<open>n.investment.maximum\<close>, \<^verbatim>\<open>n.investment.ep_costs\<close>); no
  maximum stands for Python's \<^verbatim>\<open>float('+inf')\<close>. The storage is the investment storage of
  the class's doctest, its input flow held at reference 0 and its output flow at 1.
\<close>

record Investment =
  maximum :: "real option"
  ep_costs :: "real option"

definition example_Investment_new :: Investment where
  "example_Investment_new = \<lparr>maximum = None, ep_costs = None\<rparr>"

definition example_investment_storage_kwargs :: "Investment GenericStorage_kwargs" where
  "example_investment_storage_kwargs =
     \<lparr>kw_label = ''storage'',
      kw_inputs = [(''my_bus'', 0)],
      kw_outputs = [(''my_bus'', 1)],
      kw_nominal_capacity = None,
      kw_nominal_input_capacity_ratio = Some (1 / 6),
      kw_nominal_output_capacity_ratio = Some (1 / 6),
      kw_initial_capacity = None,
      kw_capacity_loss = Some (PyNumber (2 / 100)),
      kw_inflow_conversion_factor = Some (PyNumber 1),
      kw_outflow_conversion_factor = Some (PyNumber (8 / 10)),
      kw_capacity_max = None,
      kw_capacity_min = None,
      kw_investment = Some \<lparr>maximum = None, ep_costs = Some 50\<rparr>\<rparr>"

definition example_flows :: "Investment flow_store" where
  "example_flows = (\<lambda>r. \<lparr>nominal_value = None, flow_investment = None\<rparr>)"

definition example_flows_nominal :: "Investment flow_store" where
  "example_flows_nominal =
     example_flows(1 := \<lparr>nominal_value = Some 10, flow_investment = None\<rparr>)"

section \<open>Variables and constraints of the optimisation model\<close>

text \<open>
  The constraint blocks of a model are classes. Seven of them live in the module
  \<^verbatim>\<open>oemof.solph.blocks\<close>, which plumbing.py imports and which is not among the sources;
  the four of components.py follow.
\<close>

datatype block_class =
    blocks_Bus
  | blocks_LinearTransformer
  | blocks_Storage
  | blocks_InvestmentFlow
  | blocks_InvestmentStorage
  | blocks_Flow
  | blocks_Discrete
  | GenericStorageBlock
  | GenericInvestmentStorageBlock
  | GenericCHPBlock
  | ExtractionTurbineCHPBlock

text \<open>
  The decision variables: \<^verbatim>\<open>m.flow[source, target, t]\<close> of the model, \<^verbatim>\<open>capacity[n, t]\<close>
  of a storage block (each of the two storage blocks has its own), and the variables of
  the block of generic CHPs. A rule builds an expression over the variables and compares
  it; the embedding keeps the meaning of the result: the two sides as functions of the
  variables' values, and the sense of the comparison.
\<close>

datatype var =
    var_flow label label int
  | var_capacity block_class label int
  | var_H_F label int
  | var_H_L_FG_max label int
  | var_H_L_FG_min label int
  | var_P_woDH label int
  | var_P label int
  | var_Q label int
  | var_Y label int

type_synonym valuation = "var \<Rightarrow> real"

datatype sense = EQ | LE | GE

datatype constraint = Constraint "valuation \<Rightarrow> real" sense "valuation \<Rightarrow> real"

fun satisfies :: "valuation \<Rightarrow> constraint \<Rightarrow> bool" where
  "satisfies v (Constraint l EQ r) = (l v = r v)"
| "satisfies v (Constraint l LE r) = (l v \<le> r v)"
| "satisfies v (Constraint l GE r) = (l v \<ge> r v)"

fun sense_of :: "constraint \<Rightarrow> sense" where
  "sense_of (Constraint l s r) = s"

text \<open>
  \<^verbatim>\<open>Constraint(NODES, m.TIMESTEPS, rule=rule)\<close> on a constructed block: the rule is called
  for every node of the first index set and every timestep, in this order, and the first
  error ends the construction. The constraint of node \<open>n\<close> and timestep \<open>t\<close> is stored
  under the index \<open>(n, t)\<close>, the node given by its label.
\<close>

fun Constraint_rule ::
  "('n \<Rightarrow> label) \<Rightarrow> ('n \<Rightarrow> int \<Rightarrow> error + constraint) \<Rightarrow> ('n \<times> int) list
     \<Rightarrow> (label \<times> int \<rightharpoonup> constraint) \<Rightarrow> error + (label \<times> int \<rightharpoonup> constraint)" where
  "Constraint_rule name rule [] acc = Inr acc"
| "Constraint_rule name rule ((n, t) # ks) acc =
     and_then (rule n t) (\<lambda>c. Constraint_rule name rule ks (acc((name n, t) \<mapsto> c)))"

section \<open>The model as the constraint blocks see it\<close>

text \<open>
  A block reaches the model through \<^verbatim>\<open>m = self.parent_block()\<close> and reads
  \<^verbatim>\<open>m.TIMESTEPS\<close>, \<^verbatim>\<open>m.timeincrement\<close>, \<^verbatim>\<open>m.previous_timesteps\<close>, the flow variable
  \<^verbatim>\<open>m.flow\<close>, which is indexed by the flows of the energy system and the timesteps, and
  \<^verbatim>\<open>m.es.groups\<close>, which maps a label to the node of that label.
\<close>

record model =
  TIMESTEPS :: "int list"
  timeincrement :: seqlike
  previous_timesteps_dict :: "int \<rightharpoonup> int"
  FLOWS :: "(label \<times> label) list"
  es_groups :: "label \<rightharpoonup> label"

text \<open>\<^verbatim>\<open>m.flow[source, target, t]\<close>: KeyError outside the index set of the variable.\<close>

definition flow :: "model \<Rightarrow> label \<Rightarrow> label \<Rightarrow> int \<Rightarrow> error + var" where
  "flow m source target t =
     (if (source, target) \<in> set (FLOWS m) \<and> t \<in> set (TIMESTEPS m)
        then Inr (var_flow source target t)
      else Inl KeyError)"

text \<open>
  \<^verbatim>\<open>block.capacity[n, t]\<close> of a storage block, declared as
  \<^verbatim>\<open>Var(self.STORAGES, m.TIMESTEPS)\<close>.
\<close>

definition capacity :: "block_class \<Rightarrow> label list \<Rightarrow> model \<Rightarrow> label \<Rightarrow> int \<Rightarrow> error + var"
  where
  "capacity blk STORAGES m n t =
     (if n \<in> set STORAGES \<and> t \<in> set (TIMESTEPS m) then Inr (var_capacity blk n t)
      else Inl KeyError)"

text \<open>A list comprehension whose element expression may raise.\<close>

fun list_comprehension :: "('a \<Rightarrow> error + 'b) \<Rightarrow> 'a list \<Rightarrow> error + 'b list" where
  "list_comprehension f [] = Inr []"
| "list_comprehension f (x # xs) =
     and_then (f x) (\<lambda>y. and_then (list_comprehension f xs) (\<lambda>ys. Inr (y # ys)))"

section \<open>components.py: \<^verbatim>\<open>GenericCHP\<close>\<close>

text \<open>
  A generic CHP holds three dictionaries from a bus to a flow. The class \<^verbatim>\<open>Flow\<close> is not
  among the sources; each of the three flows is the record of the attributes that
  components.py reads from it. An attribute is what the caller passed: a number, a list
  or a wrapped scalar. \<open>None\<close> in \<open>back_pressure\<close> is any value other than the two
  Booleans, \<open>None\<close> in \<open>H_L_FG_share_min\<close> an attribute that is missing or \<^verbatim>\<open>None\<close>.
  \<open>cached_alphas\<close> is the attribute \<^verbatim>\<open>_alphas\<close>, which the constructor sets to
  \<^verbatim>\<open>None\<close>.
\<close>

record electrical_Flow =
  P_min_woDH :: seqlike
  Eta_el_min_woDH :: seqlike
  P_max_woDH :: seqlike
  Eta_el_max_woDH :: seqlike

record heat_Flow =
  Q_CW_min :: seqlike

record fuel_Flow =
  H_L_FG_share_max :: seqlike
  H_L_FG_share_min :: "seqlike option"

record GenericCHP =
  chp_label :: label
  fuel_input :: "(label \<times> fuel_Flow) list"
  electrical_output :: "(label \<times> electrical_Flow) list"
  heat_output :: "(label \<times> heat_Flow) list"
  Beta :: seqlike
  back_pressure :: "bool option"
  cached_alphas :: "(real list \<times> real list) option"

text \<open>
  \<^verbatim>\<open>[len(a) for a in attrs if not isinstance(a, (int, float))]\<close> (line 588) and
  \<^verbatim>\<open>max(length)\<close> (line 589), which raises a ValueError of its own on the empty list.
\<close>

fun lengths :: "seqlike list \<Rightarrow> error + nat list" where
  "lengths [] = Inr []"
| "lengths (a # as) =
     (if is_number a then lengths as
      else and_then (py_len a) (\<lambda>l. and_then (lengths as) (\<lambda>ls. Inr (l # ls))))"

definition py_max :: "nat list \<Rightarrow> error + nat" where
  "py_max xs =
     (case xs of
        [] \<Rightarrow> Inl (ValueError ''max() arg is an empty sequence'')
      | x # rest \<Rightarrow> Inr (fold max rest x))"

text \<open>
  \<^verbatim>\<open>all(len(a) == max_length for a in attrs)\<close> (line 592): the generator is consumed
  until the first false comparison; \<^verbatim>\<open>len\<close> of a number raises TypeError.
\<close>

fun all_len_eq :: "nat \<Rightarrow> seqlike list \<Rightarrow> error + bool" where
  "all_len_eq max_length [] = Inr True"
| "all_len_eq max_length (a # as) =
     and_then (py_len a) (\<lambda>l. if l = max_length then all_len_eq max_length as else Inr False)"

text \<open>
  \<^verbatim>\<open>np.linalg.solve(A, b)\<close> for a 2 by 2 system. numpy is a library outside the
  repository; the call is taken at its documented behaviour, in exact arithmetic: the
  solution of the system, LinAlgError for a singular matrix.
\<close>

definition linalg_solve ::
  "real \<times> real \<Rightarrow> real \<times> real \<Rightarrow> real \<times> real \<Rightarrow> error + (real \<times> real)" where
  "linalg_solve row1 row2 b =
     (case (row1, row2, b) of
        ((a11, a12), (a21, a22), (b1, b2)) \<Rightarrow>
          if a11 * a22 - a12 * a21 = 0 then Inl LinAlgError
          else Inr ((b1 * a22 - a12 * b2) / (a11 * a22 - a12 * a21),
                    (a11 * b2 - b1 * a21) / (a11 * a22 - a12 * a21)))"

text \<open>
  The body of the loop (lines 596 to 604) at index \<open>i\<close>: the matrix reads
  \<^verbatim>\<open>P_min_woDH[i]\<close> and \<^verbatim>\<open>P_max_woDH[i]\<close>, the right-hand side reads the same two values
  again and divides each by its efficiency. A read repeated gives the value of the first
  read, so each attribute is read once here, in the order of the first reads.
\<close>

definition alphas_at :: "electrical_Flow \<Rightarrow> int \<Rightarrow> error + (real \<times> real)" where
  "alphas_at ef i =
     and_then (subscript (P_min_woDH ef) i) (\<lambda>pmin.
     and_then (subscript (P_max_woDH ef) i) (\<lambda>pmax.
     and_then (subscript (Eta_el_min_woDH ef) i) (\<lambda>emin.
     and_then (py_div pmin emin) (\<lambda>b1.
     and_then (subscript (Eta_el_max_woDH ef) i) (\<lambda>emax.
     and_then (py_div pmax emax) (\<lambda>b2.
       linalg_solve (1, pmin) (1, pmax) (b1, b2)))))))"

fun alphas_loop ::
  "electrical_Flow \<Rightarrow> int list \<Rightarrow> real list \<times> real list \<Rightarrow> error + (real list \<times> real list)"
  where
  "alphas_loop ef [] alphas = Inr alphas"
| "alphas_loop ef (i # rest) alphas =
     and_then (alphas_at ef i)
       (\<lambda>x. alphas_loop ef rest (fst alphas @ [fst x], snd alphas @ [snd x]))"

definition dimension_message :: string where
  "dimension_message = ''Attributes to calculate alphas must be of same dimension.''"

text \<open>
  \<^verbatim>\<open>GenericCHP._calculate_alphas\<close>: the value it stores in \<^verbatim>\<open>self._alphas\<close>, the pair of
  the two lists of coefficients.
\<close>

definition calculate_alphas :: "GenericCHP \<Rightarrow> error + (real list \<times> real list)" where
  "calculate_alphas self =
     and_then (list_getitem (map fst (electrical_output self)) 0) (\<lambda>eb.
     and_then (dict_getitem (map_of (electrical_output self)) eb) (\<lambda>ef.
       let attrs = [P_min_woDH ef, Eta_el_min_woDH ef, P_max_woDH ef, Eta_el_max_woDH ef]
       in and_then (lengths attrs) (\<lambda>lens.
          and_then (py_max lens) (\<lambda>max_length.
          and_then (all_len_eq max_length attrs) (\<lambda>same.
            if same
              then alphas_loop ef
                     (map int [0..<(if max_length = 0 then max_length + 1 else max_length)])
                     ([], [])
            else Inl (ValueError dimension_message))))))"

text \<open>
  The statement of the system that the coefficients solve at index \<open>i\<close>, in the words of
  the specification: \<open>[[1, P_min], [1, P_max]] \<cdot> [a0, a1] = [P_min / Eta_min, P_max /
  Eta_max]\<close>, the four values read at \<open>i\<close>. \<open>regular_at\<close> says that the system at \<open>i\<close> can
  be written down and has one solution.
\<close>

definition solves_system :: "electrical_Flow \<Rightarrow> int \<Rightarrow> real \<Rightarrow> real \<Rightarrow> bool" where
  "solves_system ef i a0 a1 =
     (case (subscript (P_min_woDH ef) i, subscript (Eta_el_min_woDH ef) i,
            subscript (P_max_woDH ef) i, subscript (Eta_el_max_woDH ef) i) of
        (Inr pmin, Inr emin, Inr pmax, Inr emax) \<Rightarrow>
          emin \<noteq> 0 \<and> emax \<noteq> 0
          \<and> 1 * a0 + pmin * a1 = pmin / emin
          \<and> 1 * a0 + pmax * a1 = pmax / emax
      | other \<Rightarrow> False)"

definition regular_at :: "electrical_Flow \<Rightarrow> int \<Rightarrow> bool" where
  "regular_at ef i =
     (case (subscript (P_min_woDH ef) i, subscript (Eta_el_min_woDH ef) i,
            subscript (P_max_woDH ef) i, subscript (Eta_el_max_woDH ef) i) of
        (Inr pmin, Inr emin, Inr pmax, Inr emax) \<Rightarrow> emin \<noteq> 0 \<and> emax \<noteq> 0 \<and> pmin \<noteq> pmax
      | other \<Rightarrow> False)"

text \<open>
  \<^verbatim>\<open>_Q_max_res_rule\<close> of \<^verbatim>\<open>GenericCHPBlock._create\<close> (lines 749 to 759). The test
  \<^verbatim>\<open>n.back_pressure is True\<close> holds for the Boolean \<^verbatim>\<open>True\<close> alone.
\<close>

definition Q_max_res_rule :: "GenericCHP \<Rightarrow> int \<Rightarrow> error + constraint" where
  "Q_max_res_rule n t =
     and_then (list_getitem (map snd (heat_output n)) 0) (\<lambda>hf.
     and_then (subscript (Q_CW_min hf) t) (\<lambda>q.
       let expr = (\<lambda>v. 0 + (v (var_P (chp_label n) t) + v (var_Q (chp_label n) t)
                              + v (var_H_L_FG_max (chp_label n) t))
                          + q * v (var_Y (chp_label n) t)
                          + - v (var_H_F (chp_label n) t))
       in if back_pressure n = Some True
            then Inr (Constraint expr EQ (\<lambda>v. 0))
          else Inr (Constraint expr LE (\<lambda>v. 0))))"

text \<open>
  The property \<^verbatim>\<open>alphas\<close> (lines 612 to 619): the cached value, or the value that
  \<^verbatim>\<open>_calculate_alphas\<close> computes and stores. The store is not carried along: parameters
  are read as values here, so a second computation returns what the first returned,
  which is what the cache holds.
\<close>

definition alphas :: "GenericCHP \<Rightarrow> error + (real list \<times> real list)" where
  "alphas self =
     (case cached_alphas self of
        None \<Rightarrow> calculate_alphas self
      | Some a \<Rightarrow> Inr a)"

text \<open>
  The truth value of an attribute in \<^verbatim>\<open>if getattr(flow, 'H_L_FG_share_min', None)\<close>:
  a number other than zero, a list or a \<^verbatim>\<open>UserList\<close> that is not empty.
\<close>

definition truthy :: "seqlike \<Rightarrow> bool" where
  "truthy a =
     (case a of
        PyNumber x \<Rightarrow> x \<noteq> 0
      | PyList xs \<Rightarrow> xs \<noteq> []
      | PySequence s \<Rightarrow> data s \<noteq> [])"

text \<open>
  The other rules of \<^verbatim>\<open>GenericCHPBlock._create\<close>, in the order of the source (lines
  670 to 745 and 763 to 790). Each builds its expression from 0 and compares it with 0.
  The quotients of lines 722 and 733 divide two numbers.
\<close>

definition H_flow_rule :: "model \<Rightarrow> GenericCHP \<Rightarrow> int \<Rightarrow> error + constraint" where
  "H_flow_rule m n t =
     and_then (list_getitem (map fst (fuel_input n)) 0) (\<lambda>bus.
     and_then (flow m bus (chp_label n) t) (\<lambda>f.
       Inr (Constraint (\<lambda>v. 0 + v (var_H_F (chp_label n) t) + - v f) EQ (\<lambda>v. 0))))"

definition Q_flow_rule :: "model \<Rightarrow> GenericCHP \<Rightarrow> int \<Rightarrow> error + constraint" where
  "Q_flow_rule m n t =
     and_then (list_getitem (map fst (heat_output n)) 0) (\<lambda>bus.
     and_then (flow m (chp_label n) bus t) (\<lambda>f.
       Inr (Constraint (\<lambda>v. 0 + v (var_Q (chp_label n) t) + - v f) EQ (\<lambda>v. 0))))"

definition P_flow_rule :: "model \<Rightarrow> GenericCHP \<Rightarrow> int \<Rightarrow> error + constraint" where
  "P_flow_rule m n t =
     and_then (list_getitem (map fst (electrical_output n)) 0) (\<lambda>bus.
     and_then (flow m (chp_label n) bus t) (\<lambda>f.
       Inr (Constraint (\<lambda>v. 0 + v (var_P (chp_label n) t) + - v f) EQ (\<lambda>v. 0))))"

definition H_F_1_rule :: "GenericCHP \<Rightarrow> int \<Rightarrow> error + constraint" where
  "H_F_1_rule n t =
     and_then (alphas n) (\<lambda>a.
     and_then (list_getitem (fst a) t) (\<lambda>a0.
     and_then (list_getitem (snd a) t) (\<lambda>a1.
       Inr (Constraint
              (\<lambda>v. 0 + - v (var_H_F (chp_label n) t)
                     + a0 * v (var_Y (chp_label n) t)
                     + a1 * v (var_P_woDH (chp_label n) t))
              EQ (\<lambda>v. 0)))))"

definition H_F_2_rule :: "GenericCHP \<Rightarrow> int \<Rightarrow> error + constraint" where
  "H_F_2_rule n t =
     and_then (alphas n) (\<lambda>a.
     and_then (list_getitem (fst a) t) (\<lambda>a0.
     and_then (list_getitem (snd a) t) (\<lambda>a1.
     and_then (subscript (Beta n) t) (\<lambda>beta.
       Inr (Constraint
              (\<lambda>v. 0 + - v (var_H_F (chp_label n) t)
                     + a0 * v (var_Y (chp_label n) t)
                     + a1 * (v (var_P (chp_label n) t) + beta * v (var_Q (chp_label n) t)))
              EQ (\<lambda>v. 0))))))"

definition H_F_3_rule :: "GenericCHP \<Rightarrow> int \<Rightarrow> error + constraint" where
  "H_F_3_rule n t =
     and_then (list_getitem (map snd (electrical_output n)) 0) (\<lambda>ef.
     and_then (subscript (P_max_woDH ef) t) (\<lambda>pmax.
     and_then (subscript (Eta_el_max_woDH ef) t) (\<lambda>emax.
     and_then (py_div pmax emax) (\<lambda>q.
       Inr (Constraint
              (\<lambda>v. 0 + v (var_H_F (chp_label n) t) + - v (var_Y (chp_label n) t) * q)
              LE (\<lambda>v. 0))))))"

definition H_F_4_rule :: "GenericCHP \<Rightarrow> int \<Rightarrow> error + constraint" where
  "H_F_4_rule n t =
     and_then (list_getitem (map snd (electrical_output n)) 0) (\<lambda>ef.
     and_then (subscript (P_min_woDH ef) t) (\<lambda>pmin.
     and_then (subscript (Eta_el_min_woDH ef) t) (\<lambda>emin.
     and_then (py_div pmin emin) (\<lambda>q.
       Inr (Constraint
              (\<lambda>v. 0 + v (var_H_F (chp_label n) t) + - v (var_Y (chp_label n) t) * q)
              GE (\<lambda>v. 0))))))"

definition H_L_FG_max_rule :: "GenericCHP \<Rightarrow> int \<Rightarrow> error + constraint" where
  "H_L_FG_max_rule n t =
     and_then (list_getitem (map snd (fuel_input n)) 0) (\<lambda>ff.
     and_then (subscript (H_L_FG_share_max ff) t) (\<lambda>share.
       Inr (Constraint
              (\<lambda>v. 0 + - v (var_H_L_FG_max (chp_label n) t)
                     + v (var_H_F (chp_label n) t) * share)
              EQ (\<lambda>v. 0))))"

text \<open>
  The two rules that return \<^verbatim>\<open>Constraint.Skip\<close> (here \<open>None\<close>) when the fuel flow has no
  true attribute \<^verbatim>\<open>H_L_FG_share_min\<close>.
\<close>

definition H_L_FG_min_rule :: "GenericCHP \<Rightarrow> int \<Rightarrow> error + constraint option" where
  "H_L_FG_min_rule n t =
     and_then (list_getitem (map snd (fuel_input n)) 0) (\<lambda>ff.
       case H_L_FG_share_min ff of
         None \<Rightarrow> Inr None
       | Some a \<Rightarrow>
           if truthy a
             then and_then (subscript a t) (\<lambda>share.
                    Inr (Some (Constraint
                           (\<lambda>v. 0 + - v (var_H_L_FG_min (chp_label n) t)
                                  + v (var_H_F (chp_label n) t) * share)
                           EQ (\<lambda>v. 0))))
           else Inr None)"

definition Q_min_res_rule :: "GenericCHP \<Rightarrow> int \<Rightarrow> error + constraint option" where
  "Q_min_res_rule n t =
     and_then (list_getitem (map snd (fuel_input n)) 0) (\<lambda>ff.
       case H_L_FG_share_min ff of
         None \<Rightarrow> Inr None
       | Some a \<Rightarrow>
           if truthy a
             then and_then (list_getitem (map snd (heat_output n)) 0) (\<lambda>hf.
                  and_then (subscript (Q_CW_min hf) t) (\<lambda>q.
                    Inr (Some (Constraint
                           (\<lambda>v. 0 + (v (var_P (chp_label n) t) + v (var_Q (chp_label n) t)
                                       + v (var_H_L_FG_min (chp_label n) t))
                                  + q * v (var_Y (chp_label n) t)
                                  + - v (var_H_F (chp_label n) t))
                           GE (\<lambda>v. 0)))))
           else Inr None)"

text \<open>
  \<^verbatim>\<open>Constraint(NODES, m.TIMESTEPS, rule=rule)\<close> for a rule that may skip an index.
\<close>

fun Constraint_rule_skip ::
  "('n \<Rightarrow> label) \<Rightarrow> ('n \<Rightarrow> int \<Rightarrow> error + constraint option) \<Rightarrow> ('n \<times> int) list
     \<Rightarrow> (label \<times> int \<rightharpoonup> constraint) \<Rightarrow> error + (label \<times> int \<rightharpoonup> constraint)" where
  "Constraint_rule_skip name rule [] acc = Inr acc"
| "Constraint_rule_skip name rule ((n, t) # ks) acc =
     and_then (rule n t)
       (\<lambda>c. Constraint_rule_skip name rule ks
              (case c of None \<Rightarrow> acc | Some c' \<Rightarrow> acc((name n, t) \<mapsto> c')))"

text \<open>
  \<^verbatim>\<open>GenericCHPBlock._create\<close>: nothing for the group \<^verbatim>\<open>None\<close>; otherwise the set of CHPs
  and the eleven constraints, each built over the CHPs and the timesteps when it is
  assigned, in the order of the source, so that an error of an earlier rule ends
  \<^verbatim>\<open>_create\<close> before a later constraint is built. The variables are declared without
  rules and cannot raise.
\<close>

record GenericCHP_block =
  GENERICCHPS :: "label list"
  H_flow :: "label \<times> int \<rightharpoonup> constraint"
  Q_flow :: "label \<times> int \<rightharpoonup> constraint"
  P_flow :: "label \<times> int \<rightharpoonup> constraint"
  H_F_1 :: "label \<times> int \<rightharpoonup> constraint"
  H_F_2 :: "label \<times> int \<rightharpoonup> constraint"
  H_F_3 :: "label \<times> int \<rightharpoonup> constraint"
  H_F_4 :: "label \<times> int \<rightharpoonup> constraint"
  H_L_FG_max_def :: "label \<times> int \<rightharpoonup> constraint"
  Q_max_res :: "label \<times> int \<rightharpoonup> constraint"
  H_L_FG_min_def :: "label \<times> int \<rightharpoonup> constraint"
  Q_min_res :: "label \<times> int \<rightharpoonup> constraint"

definition GenericCHPBlock_create ::
  "model \<Rightarrow> GenericCHP list option \<Rightarrow> error + GenericCHP_block option" where
  "GenericCHPBlock_create m grp =
     (case grp of
        None \<Rightarrow> Inr None
      | Some g \<Rightarrow>
          and_then (Constraint_rule chp_label (H_flow_rule m) (List.product g (TIMESTEPS m))
                      Map.empty) (\<lambda>c1.
          and_then (Constraint_rule chp_label (Q_flow_rule m) (List.product g (TIMESTEPS m))
                      Map.empty) (\<lambda>c2.
          and_then (Constraint_rule chp_label (P_flow_rule m) (List.product g (TIMESTEPS m))
                      Map.empty) (\<lambda>c3.
          and_then (Constraint_rule chp_label H_F_1_rule (List.product g (TIMESTEPS m))
                      Map.empty) (\<lambda>c4.
          and_then (Constraint_rule chp_label H_F_2_rule (List.product g (TIMESTEPS m))
                      Map.empty) (\<lambda>c5.
          and_then (Constraint_rule chp_label H_F_3_rule (List.product g (TIMESTEPS m))
                      Map.empty) (\<lambda>c6.
          and_then (Constraint_rule chp_label H_F_4_rule (List.product g (TIMESTEPS m))
                      Map.empty) (\<lambda>c7.
          and_then (Constraint_rule chp_label H_L_FG_max_rule (List.product g (TIMESTEPS m))
                      Map.empty) (\<lambda>c8.
          and_then (Constraint_rule chp_label Q_max_res_rule (List.product g (TIMESTEPS m))
                      Map.empty) (\<lambda>c9.
          and_then (Constraint_rule_skip chp_label H_L_FG_min_rule
                      (List.product g (TIMESTEPS m)) Map.empty) (\<lambda>c10.
          and_then (Constraint_rule_skip chp_label Q_min_res_rule
                      (List.product g (TIMESTEPS m)) Map.empty) (\<lambda>c11.
            Inr (Some \<lparr>GENERICCHPS = map chp_label g,
                       H_flow = c1, Q_flow = c2, P_flow = c3,
                       H_F_1 = c4, H_F_2 = c5, H_F_3 = c6, H_F_4 = c7,
                       H_L_FG_max_def = c8, Q_max_res = c9,
                       H_L_FG_min_def = c10, Q_min_res = c11\<rparr>)))))))))))))"




text \<open>
  Example CHPs. \<open>example_ccet\<close> is the combined cycle extraction turbine of the class's
  doctest. Three more differ from it in the four attributes of the electrical flow:
  lists of different lengths, equal minimum and maximum power, and plain numbers.
\<close>

definition example_electrical_Flow :: electrical_Flow where
  "example_electrical_Flow =
     \<lparr>P_min_woDH = PyList [68787 / 1000],
      Eta_el_min_woDH = PyList [444 / 1000],
      P_max_woDH = PyList [155946 / 1000],
      Eta_el_max_woDH = PyList [525 / 1000]\<rparr>"

definition example_ccet :: GenericCHP where
  "example_ccet =
     \<lparr>chp_label = ''ccet'',
      fuel_input = [(''bgas'', \<lparr>H_L_FG_share_max = PyList [183 / 1000],
                                H_L_FG_share_min = None\<rparr>)],
      electrical_output = [(''bel'', example_electrical_Flow)],
      heat_output = [(''bth'', \<lparr>Q_CW_min = PyList [10552 / 1000]\<rparr>)],
      Beta = PyList [122 / 1000],
      back_pressure = Some False,
      cached_alphas = None\<rparr>"




definition example_chp_lengths_differ :: GenericCHP where
  "example_chp_lengths_differ =
     example_ccet\<lparr>electrical_output :=
       [(''bel'', example_electrical_Flow\<lparr>P_min_woDH := PyList [68787 / 1000, 70]\<rparr>)]\<rparr>"

definition example_chp_singular :: GenericCHP where
  "example_chp_singular =
     example_ccet\<lparr>electrical_output :=
       [(''bel'', example_electrical_Flow\<lparr>P_min_woDH := PyList [155946 / 1000]\<rparr>)]\<rparr>"

definition example_chp_numbers :: GenericCHP where
  "example_chp_numbers =
     example_ccet\<lparr>electrical_output :=
       [(''bel'', \<lparr>P_min_woDH = PyNumber (68787 / 1000),
                   Eta_el_min_woDH = PyNumber (444 / 1000),
                   P_max_woDH = PyNumber (155946 / 1000),
                   Eta_el_max_woDH = PyNumber (525 / 1000)\<rparr>)]\<rparr>"

section \<open>components.py: the two storage blocks\<close>

text \<open>
  \<^verbatim>\<open>{n: [i for i in n.inputs][0] for n in group}\<close> (lines 217, 218, 383 and 384): the
  first key of a dictionary of every node of the group, IndexError for a node with an
  empty dictionary.
\<close>

fun first_keys ::
  "('n \<Rightarrow> label) \<Rightarrow> ('n \<Rightarrow> (label \<times> 'x) list) \<Rightarrow> 'n list \<Rightarrow> (label \<rightharpoonup> label)
     \<Rightarrow> error + (label \<rightharpoonup> label)" where
  "first_keys name dict [] acc = Inr acc"
| "first_keys name dict (n # ns) acc =
     and_then (list_getitem (map fst (dict n)) 0)
       (\<lambda>k. first_keys name dict ns (acc(name n \<mapsto> k)))"

text \<open>
  \<^verbatim>\<open>_storage_balance_rule(block, n, t)\<close>, which \<^verbatim>\<open>GenericStorageBlock._create\<close> (lines
  240 to 252) and \<^verbatim>\<open>GenericInvestmentStorageBlock._create\<close> (lines 386 to 397) define
  with the same text; \<open>blk\<close> says whose \<^verbatim>\<open>capacity\<close> variable it is. The reads follow
  the order of evaluation of the four statements. The expression divides a variable by
  the number \<^verbatim>\<open>n.outflow_conversion_factor[t]\<close>; for the number zero the division of
  the modelling library raises ZeroDivisionError.
\<close>

definition storage_balance_rule ::
  "block_class \<Rightarrow> model \<Rightarrow> label list \<Rightarrow> (label \<rightharpoonup> label) \<Rightarrow> (label \<rightharpoonup> label)
     \<Rightarrow> 'inv GenericStorage \<Rightarrow> int \<Rightarrow> error + constraint" where
  "storage_balance_rule blk m STORAGES i_n o_n n t =
     and_then (capacity blk STORAGES m (label n) t) (\<lambda>level.
     and_then (dict_getitem (previous_timesteps_dict m) t) (\<lambda>p.
     and_then (capacity blk STORAGES m (label n) p) (\<lambda>level_before.
     and_then (subscript (capacity_loss n) t) (\<lambda>loss.
     and_then (dict_getitem i_n (label n)) (\<lambda>source.
     and_then (flow m source (label n) t) (\<lambda>inflow.
     and_then (subscript (inflow_conversion_factor n) t) (\<lambda>icf.
     and_then (subscript (timeincrement m) t) (\<lambda>tau_in.
     and_then (dict_getitem o_n (label n)) (\<lambda>target.
     and_then (flow m (label n) target t) (\<lambda>outflow.
     and_then (subscript (outflow_conversion_factor n) t) (\<lambda>ocf.
       if ocf = 0 then Inl ZeroDivisionError
       else and_then (subscript (timeincrement m) t) (\<lambda>tau_out.
         Inr (Constraint
               (\<lambda>v. 0 + v level
                      + - v level_before * (1 - loss)
                      + (- v inflow * icf) * tau_in
                      + (v outflow / ocf) * tau_out)
               EQ (\<lambda>v. 0))))))))))))))"

text \<open>
  \<^verbatim>\<open>_create\<close> of a storage block: nothing for the group \<^verbatim>\<open>None\<close>; otherwise the two
  dictionaries of first inputs and first outputs, the set of storages and the balance
  constraint over the storages and the timesteps. The declaration of the variables
  (their bounds, the fixed initial level) and the further sets and constraints of the
  investment block do not enter the balance and are left out: an error of theirs ends
  \<^verbatim>\<open>_create\<close> as well, so that a \<^verbatim>\<open>_create\<close> that returns in the code returns here.
\<close>

record storage_block =
  STORAGES :: "label list"
  balance :: "label \<times> int \<rightharpoonup> constraint"

definition storage_block_create ::
  "block_class \<Rightarrow> model \<Rightarrow> 'inv GenericStorage list option \<Rightarrow> error + storage_block option"
  where
  "storage_block_create blk m grp =
     (case grp of
        None \<Rightarrow> Inr None
      | Some g \<Rightarrow>
          and_then (first_keys label inputs g Map.empty) (\<lambda>i_n.
          and_then (first_keys label outputs g Map.empty) (\<lambda>o_n.
          and_then (Constraint_rule label
                      (storage_balance_rule blk m (map label g) i_n o_n)
                      (List.product g (TIMESTEPS m)) Map.empty) (\<lambda>bal.
            Inr (Some \<lparr>STORAGES = map label g, balance = bal\<rparr>)))))"

definition GenericStorageBlock_create ::
  "model \<Rightarrow> 'inv GenericStorage list option \<Rightarrow> error + storage_block option" where
  "GenericStorageBlock_create = storage_block_create GenericStorageBlock"

definition GenericInvestmentStorageBlock_create ::
  "model \<Rightarrow> 'inv GenericStorage list option \<Rightarrow> error + storage_block option" where
  "GenericInvestmentStorageBlock_create = storage_block_create GenericInvestmentStorageBlock"

text \<open>
  The balance in the words of the specification, for the values \<open>v\<close> of the variables:
  \<open>level[t] = level[previous(t)] \<times> (1 - loss) + inflow \<times> icf \<times> duration - (outflow /
  ocf) \<times> duration\<close>.
\<close>

definition balance_equation ::
  "valuation \<Rightarrow> block_class \<Rightarrow> label \<Rightarrow> label \<Rightarrow> label \<Rightarrow> int \<Rightarrow> int
     \<Rightarrow> real \<Rightarrow> real \<Rightarrow> real \<Rightarrow> real \<Rightarrow> bool" where
  "balance_equation v blk n source target t p loss icf ocf duration =
     (v (var_capacity blk n t) =
        v (var_capacity blk n p) * (1 - loss)
        + v (var_flow source n t) * icf * duration
        - (v (var_flow n target t) / ocf) * duration)"

section \<open>components.py: the block of extraction turbines\<close>

text \<open>
  An extraction turbine with the keys of its dictionaries of inputs and outputs (buses,
  given by their labels) and its two dictionaries of conversion factors, whose values
  the constructors wrapped with \<^verbatim>\<open>solph_sequence\<close>.
\<close>

record ExtractionTurbineCHP =
  etchp_label :: label
  etchp_inputs :: "label list"
  etchp_outputs :: "label list"
  conversion_factors :: "(label \<times> seqlike) list"
  conversion_factor_full_condensation :: "(label \<times> seqlike) list"

text \<open>The attributes that the first loop of \<^verbatim>\<open>_create\<close> (lines 916 to 936) sets.\<close>

record ExtractionTurbineCHP_derived =
  inflow :: label
  label_main_flow :: string
  main_output :: label
  tapped_output :: label
  conversion_factor_full_condensation_sq :: seqlike
  flow_relation_index :: "real list"
  main_flow_loss_index :: "real list"

text \<open>\<^verbatim>\<open>n.conversion_factors[m.es.groups[label]][t]\<close>.\<close>

definition conversion_factor_at ::
  "model \<Rightarrow> ExtractionTurbineCHP \<Rightarrow> label \<Rightarrow> int \<Rightarrow> error + real" where
  "conversion_factor_at m n lbl t =
     and_then (dict_getitem (es_groups m) lbl) (\<lambda>bus.
     and_then (dict_getitem (map_of (conversion_factors n)) bus) (\<lambda>cf.
       subscript cf t))"

definition derive :: "model \<Rightarrow> ExtractionTurbineCHP \<Rightarrow> error + ExtractionTurbineCHP_derived"
  where
  "derive m n =
     and_then (list_getitem (etchp_inputs n) 0) (\<lambda>inflow'.
     and_then (list_getitem (map fst (conversion_factor_full_condensation n)) 0) (\<lambda>main_label.
     and_then (list_getitem (filter (\<lambda>x. main_label = x) (etchp_outputs n)) 0) (\<lambda>main.
     and_then (list_getitem (filter (\<lambda>x. main_label \<noteq> x) (etchp_outputs n)) 0) (\<lambda>tapped.
     and_then (dict_getitem (es_groups m) main) (\<lambda>main_bus.
     and_then (dict_getitem (map_of (conversion_factor_full_condensation n)) main_bus) (\<lambda>sq.
     and_then (list_comprehension
                 (\<lambda>t. and_then (conversion_factor_at m n main t) (\<lambda>x.
                      and_then (conversion_factor_at m n tapped t) (\<lambda>y. py_div x y)))
                 (TIMESTEPS m)) (\<lambda>fri.
     and_then (list_comprehension
                 (\<lambda>t. and_then (subscript sq t) (\<lambda>c.
                      and_then (conversion_factor_at m n main t) (\<lambda>x.
                      and_then (conversion_factor_at m n tapped t) (\<lambda>y. py_div (c - x) y))))
                 (TIMESTEPS m)) (\<lambda>mfli.
       Inr \<lparr>inflow = inflow',
            label_main_flow = main_label,
            main_output = main,
            tapped_output = tapped,
            conversion_factor_full_condensation_sq = sq,
            flow_relation_index = fri,
            main_flow_loss_index = mfli\<rparr>))))))))"

text \<open>
  The relation that \<^verbatim>\<open>_input_output_relation_rule\<close> builds for the turbine \<open>g\<close> at the
  timestep \<open>t\<close> (lines 943 to 949), and the one of \<^verbatim>\<open>_out_flow_relation_rule\<close> (lines 960
  to 962). The division of an expression by the number zero raises ZeroDivisionError.
\<close>

definition input_output_relation_at ::
  "model \<Rightarrow> ExtractionTurbineCHP \<times> ExtractionTurbineCHP_derived \<Rightarrow> int \<Rightarrow> error + constraint"
  where
  "input_output_relation_at m g t =
     and_then (flow m (inflow (snd g)) (etchp_label (fst g)) t) (\<lambda>lhs.
     and_then (flow m (etchp_label (fst g)) (main_output (snd g)) t) (\<lambda>main.
     and_then (flow m (etchp_label (fst g)) (tapped_output (snd g)) t) (\<lambda>tapped.
     and_then (list_getitem (main_flow_loss_index (snd g)) t) (\<lambda>loss_index.
     and_then (subscript (conversion_factor_full_condensation_sq (snd g)) t) (\<lambda>c.
       if c = 0 then Inl ZeroDivisionError
       else Inr (Constraint (\<lambda>v. v lhs) EQ
                   (\<lambda>v. (v main + v tapped * loss_index) / c)))))))"

definition out_flow_relation_at ::
  "model \<Rightarrow> ExtractionTurbineCHP \<times> ExtractionTurbineCHP_derived \<Rightarrow> int \<Rightarrow> error + constraint"
  where
  "out_flow_relation_at m g t =
     and_then (flow m (etchp_label (fst g)) (main_output (snd g)) t) (\<lambda>lhs.
     and_then (flow m (etchp_label (fst g)) (tapped_output (snd g)) t) (\<lambda>tapped.
     and_then (list_getitem (flow_relation_index (snd g)) t) (\<lambda>relation_index.
       Inr (Constraint (\<lambda>v. v lhs) GE (\<lambda>v. v tapped * relation_index)))))"

text \<open>
  The two nested loops of a build rule, \<^verbatim>\<open>for t in m.TIMESTEPS: for g in group:\<close>,
  each pass ending in \<^verbatim>\<open>block.relation.add(index, relation)\<close>. \<^verbatim>\<open>add\<close> stores the
  relation under the index, in place of a relation stored there before.
\<close>

fun add_relations ::
  "('g \<Rightarrow> int \<Rightarrow> label \<times> int) \<Rightarrow> ('g \<Rightarrow> int \<Rightarrow> error + constraint) \<Rightarrow> (int \<times> 'g) list
     \<Rightarrow> (label \<times> int \<rightharpoonup> constraint) \<Rightarrow> error + (label \<times> int \<rightharpoonup> constraint)" where
  "add_relations index relation [] acc = Inr acc"
| "add_relations index relation ((t, g) # rest) acc =
     and_then (relation g t) (\<lambda>c. add_relations index relation rest (acc(index g t \<mapsto> c)))"

record ExtractionTurbineCHP_block =
  input_output_relation :: "label \<times> int \<rightharpoonup> constraint"
  out_flow_relation :: "label \<times> int \<rightharpoonup> constraint"

text \<open>
  \<^verbatim>\<open>ExtractionTurbineCHPBlock._create\<close>. In \<^verbatim>\<open>_input_output_relation_rule\<close> the index
  of \<^verbatim>\<open>add\<close> is \<^verbatim>\<open>(n, t)\<close> (line 950): \<^verbatim>\<open>n\<close> is the variable of the loop
  \<^verbatim>\<open>for n in group\<close> of line 916, which that loop left at the last turbine of the
  group. \<^verbatim>\<open>_out_flow_relation_rule\<close> adds under \<^verbatim>\<open>(g, t)\<close> (line 963).
\<close>

definition ExtractionTurbineCHPBlock_create ::
  "model \<Rightarrow> ExtractionTurbineCHP list option \<Rightarrow> error + ExtractionTurbineCHP_block option"
  where
  "ExtractionTurbineCHPBlock_create m grp =
     (case grp of
        None \<Rightarrow> Inr None
      | Some g \<Rightarrow>
          and_then (list_comprehension (\<lambda>n. and_then (derive m n) (\<lambda>d. Inr (n, d))) g)
            (\<lambda>gd.
          and_then (add_relations (\<lambda>x t. (etchp_label (fst (last gd)), t))
                      (input_output_relation_at m) (List.product (TIMESTEPS m) gd) Map.empty)
            (\<lambda>io.
          and_then (add_relations (\<lambda>x t. (etchp_label (fst x), t))
                      (out_flow_relation_at m) (List.product (TIMESTEPS m) gd) Map.empty)
            (\<lambda>outr.
            Inr (Some \<lparr>input_output_relation = io, out_flow_relation = outr\<rparr>)))))"

section \<open>plumbing.py: \<^verbatim>\<open>OperationalModel.__init__\<close>\<close>

text \<open>
  The energy system: its nodes, each with its label, the keys of its dictionaries of
  inputs and outputs, and the names of its class and of the bases of its class, which
  decide \<^verbatim>\<open>isinstance\<close>; and the dictionary \<^verbatim>\<open>es.groups\<close>, which holds a node under
  its label and a list of nodes under a block class. The groups of the four block
  classes of components.py are lists of the components of their kind.
\<close>

record node =
  node_label :: label
  node_inputs :: "label list"
  node_outputs :: "label list"
  node_classes :: "string list"

record 'inv EnergySystem =
  nodes :: "node list"
  groups_label :: "label \<rightharpoonup> label"
  groups_GenericStorageBlock :: "'inv GenericStorage list option"
  groups_GenericInvestmentStorageBlock :: "'inv GenericStorage list option"
  groups_GenericCHPBlock :: "GenericCHP list option"
  groups_ExtractionTurbineCHPBlock :: "ExtractionTurbineCHP list option"

text \<open>
  The class attribute \<^verbatim>\<open>OperationalModel.CONSTRAINT_GROUPS\<close> is one list object, made
  when the module is loaded. Lists live in a store of list objects; the class attribute
  is the reference \<open>CONSTRAINT_GROUPS\<close>, and \<open>module_lists\<close> is the store after the
  class statement.
\<close>

type_synonym list_store = "ref \<Rightarrow> block_class list"

definition CONSTRAINT_GROUPS :: ref where
  "CONSTRAINT_GROUPS = 0"

definition module_lists :: list_store where
  "module_lists =
     (\<lambda>r. [])(CONSTRAINT_GROUPS :=
        [blocks_Bus, blocks_LinearTransformer, blocks_Storage, blocks_InvestmentFlow,
         blocks_InvestmentStorage, blocks_Flow, blocks_Discrete])"

text \<open>\<^verbatim>\<open>xs.extend(ys)\<close> on the list object at \<open>r\<close>.\<close>

definition list_extend :: "list_store \<Rightarrow> ref \<Rightarrow> block_class list \<Rightarrow> list_store" where
  "list_extend st r ys = st(r := st r @ ys)"

text \<open>
  The keyword arguments of the constructor, and of the time index (a pandas object) its
  length and the nanoseconds of its frequency.
\<close>

record timeindex =
  timeindex_len :: nat
  freq_nanos :: int

record OperationalModel_kwargs =
  kw_name :: "string option"
  kw_timeindex :: "timeindex option"
  kw_constraint_groups :: "block_class list option"

text \<open>
  What the loop over the constraint groups leaves in the model for a block class: for a
  class of components.py what its \<^verbatim>\<open>_create\<close> built, for a class of \<^verbatim>\<open>oemof.solph.blocks\<close>, whose code is not
  among the sources, the fact that an instance was made.
\<close>

datatype block =
    solph_block
  | storage_block "storage_block option"
  | chp_block "GenericCHP_block option"
  | turbine_block "ExtractionTurbineCHP_block option"

record 'inv OperationalModel =
  model_name :: string
  es :: "'inv EnergySystem"
  timesteps_range :: "int list"
  constraint_groups_ref :: ref
  parent :: model
  blocks :: "(block_class \<times> block) list"

text \<open>
  \<^verbatim>\<open>self.flows\<close> (lines 142 to 144): a key \<open>(source, target)\<close> for every node of the
  energy system and every target among its outputs.
\<close>

definition flows_of :: "'inv EnergySystem \<Rightarrow> (label \<times> label) list" where
  "flows_of e = concat (map (\<lambda>source. map (\<lambda>target. (node_label source, target))
                                        (node_outputs source)) (nodes e))"

text \<open>
  One pass of the loop of lines 229 to 236: \<^verbatim>\<open>block = group()\<close>, the block added to
  the model, and \<^verbatim>\<open>block._create(group=self.es.groups.get(group))\<close>.
\<close>

definition create_block :: "'inv EnergySystem \<Rightarrow> model \<Rightarrow> block_class \<Rightarrow> error + block" where
  "create_block e m cls =
     (case cls of
        GenericStorageBlock \<Rightarrow>
          and_then (GenericStorageBlock_create m (groups_GenericStorageBlock e))
            (\<lambda>b. Inr (storage_block b))
      | GenericInvestmentStorageBlock \<Rightarrow>
          and_then (GenericInvestmentStorageBlock_create m
                      (groups_GenericInvestmentStorageBlock e))
            (\<lambda>b. Inr (storage_block b))
      | GenericCHPBlock \<Rightarrow>
          and_then (GenericCHPBlock_create m (groups_GenericCHPBlock e))
            (\<lambda>b. Inr (chp_block b))
      | ExtractionTurbineCHPBlock \<Rightarrow>
          and_then (ExtractionTurbineCHPBlock_create m (groups_ExtractionTurbineCHPBlock e))
            (\<lambda>b. Inr (turbine_block b))
      | other \<Rightarrow> Inr solph_block)"

text \<open>
  \<^verbatim>\<open>OperationalModel.__init__(es, **kwargs)\<close>, run on a store of list objects; it
  returns the model or the error, and the store as the call leaves it. In the order of
  the source: the length of the time index (\<^verbatim>\<open>len(None)\<close> is a TypeError when no time
  index is passed), the time increment in hours, a number; the constraint groups, where
  \<^verbatim>\<open>self._constraint_groups\<close> is bound to the list object of the class attribute and
  that object is extended by the argument (lines 137 and 138); the flows; the previous
  timesteps; the loop over the constraint groups. The sets and variables of lines 148 to
  225 other than these, the bounds of the flow variable and the objective are left out:
  no block of components.py reads them.
\<close>

definition OperationalModel_init ::
  "'inv EnergySystem \<Rightarrow> OperationalModel_kwargs \<Rightarrow> list_store
     \<Rightarrow> (error + 'inv OperationalModel) \<times> list_store" where
  "OperationalModel_init e kw st =
     (case kw_timeindex kw of
        None \<Rightarrow> (Inl TypeError, st)
      | Some ti \<Rightarrow>
          (let st' = list_extend st CONSTRAINT_GROUPS
                          (case kw_constraint_groups kw of None \<Rightarrow> [] | Some gs \<Rightarrow> gs)
           in (and_then (previous_timesteps (timeindex_len ti)) (\<lambda>prev.
                 let m = \<lparr>TIMESTEPS = timesteps (timeindex_len ti),
                          timeincrement =
                            PyNumber (real_of_int (freq_nanos ti) / 3600000000000),
                          previous_timesteps_dict = prev,
                          FLOWS = flows_of e,
                          es_groups = groups_label e\<rparr>
                 in and_then (list_comprehension
                                (\<lambda>cls. and_then (create_block e m cls) (\<lambda>b. Inr (cls, b)))
                                (st' CONSTRAINT_GROUPS))
                      (\<lambda>bs. Inr \<lparr>model_name = (case kw_name kw of
                                                  None \<Rightarrow> ''OperationalModel''
                                                | Some x \<Rightarrow> x),
                                  es = e,
                                  timesteps_range = timesteps (timeindex_len ti),
                                  constraint_groups_ref = CONSTRAINT_GROUPS,
                                  parent = m,
                                  blocks = bs\<rparr>)),
               st')))"

section \<open>plumbing.py: \<^verbatim>\<open>OperationalModel.results\<close>\<close>

text \<open>
  What \<^verbatim>\<open>results\<close> reads from a solved model: the value of the flow variable at
  every index, the values of the \<^verbatim>\<open>capacity\<close> variables of the blocks \<^verbatim>\<open>self.Storage\<close>
  and \<^verbatim>\<open>self.InvestmentStorage\<close> (\<open>None\<close> for a block without the attribute
  \<^verbatim>\<open>capacity\<close>), and the value of the objective.
\<close>

record solution =
  solved_nodes :: "node list"
  solved_TIMESTEPS :: "int list"
  flow_value :: "label \<times> label \<times> int \<rightharpoonup> real"
  Storage_capacity :: "(label \<times> int \<rightharpoonup> real) option"
  InvestmentStorage_capacity :: "(label \<times> int \<rightharpoonup> real) option"
  objective_value :: real

type_synonym result = "label \<rightharpoonup> (label \<rightharpoonup> real list)"

text \<open>
  \<^verbatim>\<open>result[a] = result.get(a, UserDict())\<close> followed by \<^verbatim>\<open>result[a][b] = series\<close>.
\<close>

definition set_series :: "result \<Rightarrow> label \<Rightarrow> label \<Rightarrow> real list \<Rightarrow> result" where
  "set_series r a b series =
     r(a \<mapsto> (case r a of None \<Rightarrow> Map.empty | Some d \<Rightarrow> d)(b \<mapsto> series))"

text \<open>\<^verbatim>\<open>[self.flow[a, b, t].value for t in self.TIMESTEPS]\<close>.\<close>

definition flow_series :: "solution \<Rightarrow> label \<Rightarrow> label \<Rightarrow> error + real list" where
  "flow_series sol a b =
     list_comprehension (\<lambda>t. dict_getitem (flow_value sol) (a, b, t)) (solved_TIMESTEPS sol)"

text \<open>The two loops over the outputs and the inputs of a node (lines 306 to 312).\<close>

fun output_series :: "solution \<Rightarrow> label \<Rightarrow> label list \<Rightarrow> result \<Rightarrow> error + result" where
  "output_series sol n [] r = Inr r"
| "output_series sol n (x # xs) r =
     and_then (flow_series sol n x) (\<lambda>series. output_series sol n xs (set_series r n x series))"

fun input_series :: "solution \<Rightarrow> label \<Rightarrow> label list \<Rightarrow> result \<Rightarrow> error + result" where
  "input_series sol n [] r = Inr r"
| "input_series sol n (x # xs) r =
     and_then (flow_series sol x n) (\<lambda>series. input_series sol n xs (set_series r x n series))"

text \<open>
  Lines 316 to 325, for a storage node: the series of levels is read from
  \<^verbatim>\<open>self.Storage.capacity\<close> whenever that block has the attribute, and from
  \<^verbatim>\<open>self.InvestmentStorage.capacity\<close> otherwise. An index that a variable does not have
  is a KeyError, a missing attribute an AttributeError.
\<close>

definition capacity_series :: "solution \<Rightarrow> label \<Rightarrow> error + real list" where
  "capacity_series sol n =
     (case Storage_capacity sol of
        Some cap \<Rightarrow> list_comprehension (\<lambda>t. dict_getitem cap (n, t)) (solved_TIMESTEPS sol)
      | None \<Rightarrow>
          (case InvestmentStorage_capacity sol of
             Some cap \<Rightarrow>
               list_comprehension (\<lambda>t. dict_getitem cap (n, t)) (solved_TIMESTEPS sol)
           | None \<Rightarrow> Inl (AttributeError ''capacity'')))"

text \<open>
  The names that plumbing.py binds at module level: its imports (lines 5 to 10), its
  function and its classes. A name that is neither among them nor a builtin raises
  NameError where it is evaluated. \<^verbatim>\<open>Storage\<close> is not among them: line 10 imports
  \<^verbatim>\<open>Sink\<close> and \<^verbatim>\<open>Source\<close> only.
\<close>

definition module_names :: "string list" where
  "module_names =
     [''abc'', ''UserList'', ''UserDict'', ''po'', ''SolverFactory'', ''RelaxIntegrality'',
      ''blocks'', ''Sink'', ''Source'', ''Sequence'', ''_Sequence'', ''ExpansionModel'',
      ''OperationalModel'']"

definition global_name :: "string \<Rightarrow> error + string" where
  "global_name x = (if x \<in> set module_names then Inr x else Inl NameError)"

text \<open>\<^verbatim>\<open>isinstance(node, cls)\<close>, for a class given by its name.\<close>

definition isinstance :: "node \<Rightarrow> string \<Rightarrow> bool" where
  "isinstance n cls = (cls \<in> set (node_classes n))"

text \<open>
  One pass of the loop over the nodes (lines 303 to 325): the two loops over the flows,
  then the test \<^verbatim>\<open>isinstance(node, Storage)\<close> of line 315, which first evaluates the
  name \<^verbatim>\<open>Storage\<close>.
\<close>

definition results_node :: "solution \<Rightarrow> node \<Rightarrow> result \<Rightarrow> error + result" where
  "results_node sol n r =
     and_then (output_series sol (node_label n) (node_outputs n) r) (\<lambda>r1.
     and_then (input_series sol (node_label n) (node_inputs n) r1) (\<lambda>r2.
     and_then (global_name ''Storage'') (\<lambda>cls.
       if isinstance n cls
         then and_then (capacity_series sol (node_label n))
                (\<lambda>value. Inr (set_series r2 (node_label n) (node_label n) value))
       else Inr r2)))"

fun results_nodes :: "solution \<Rightarrow> node list \<Rightarrow> result \<Rightarrow> error + result" where
  "results_nodes sol [] r = Inr r"
| "results_nodes sol (n # ns) r = and_then (results_node sol n r) (results_nodes sol ns)"

text \<open>\<^verbatim>\<open>OperationalModel.results\<close>: the objective and the nested dictionary.\<close>

definition results :: "solution \<Rightarrow> error + real \<times> result" where
  "results sol =
     and_then (results_nodes sol (solved_nodes sol) Map.empty)
       (\<lambda>r. Inr (objective_value sol, r))"

section \<open>Example energy systems\<close>

text \<open>
  An hourly time index of three entries, and the keyword arguments of three
  constructions: without constraint groups, with the plain storage block, and with the
  block of extraction turbines.
\<close>

definition example_timeindex :: timeindex where
  "example_timeindex = \<lparr>timeindex_len = 3, freq_nanos = 3600000000000\<rparr>"

definition example_kwargs_plain :: OperationalModel_kwargs where
  "example_kwargs_plain =
     \<lparr>kw_name = None, kw_timeindex = Some example_timeindex, kw_constraint_groups = None\<rparr>"

definition example_kwargs_storage_block :: OperationalModel_kwargs where
  "example_kwargs_storage_block =
     example_kwargs_plain\<lparr>kw_constraint_groups := Some [GenericStorageBlock]\<rparr>"

text \<open>An energy system without nodes.\<close>

definition example_empty_es :: "Investment EnergySystem" where
  "example_empty_es =
     \<lparr>nodes = [],
      groups_label = Map.empty,
      groups_GenericStorageBlock = None,
      groups_GenericInvestmentStorageBlock = None,
      groups_GenericCHPBlock = None,
      groups_ExtractionTurbineCHPBlock = None\<rparr>"

text \<open>
  The plain storage of the doctest of \<^verbatim>\<open>GenericStorage\<close>, as its constructor leaves it,
  between the two flows from and to the bus \<^verbatim>\<open>my_bus\<close>, and the energy system of the
  bus and the storage, grouped by \<^verbatim>\<open>component_grouping\<close>.
\<close>

definition example_storage :: "Investment GenericStorage" where
  "example_storage =
     \<lparr>label = ''storage'',
      inputs = [(''my_bus'', 0)],
      outputs = [(''my_bus'', 1)],
      nominal_capacity = Some 1000,
      nominal_input_capacity_ratio = Some (1 / 6),
      nominal_output_capacity_ratio = Some (1 / 6),
      initial_capacity = Some 0,
      capacity_loss = Sequence (PyNumber (1 / 100)),
      inflow_conversion_factor = Sequence (PyNumber (9 / 10)),
      outflow_conversion_factor = Sequence (PyNumber (93 / 100)),
      capacity_max = Sequence (PyNumber (9 / 10)),
      capacity_min = Sequence (PyNumber 0),
      investment = None\<rparr>"

definition example_storage_es :: "Investment EnergySystem" where
  "example_storage_es =
     \<lparr>nodes = [\<lparr>node_label = ''my_bus'', node_inputs = [''storage''],
                 node_outputs = [''storage''], node_classes = [''Bus'', ''Node'']\<rparr>,
               \<lparr>node_label = ''storage'', node_inputs = [''my_bus''],
                 node_outputs = [''my_bus''],
                 node_classes = [''GenericStorage'', ''Transformer'', ''Node'']\<rparr>],
      groups_label = [''my_bus'' \<mapsto> ''my_bus'', ''storage'' \<mapsto> ''storage''],
      groups_GenericStorageBlock = Some [example_storage],
      groups_GenericInvestmentStorageBlock = None,
      groups_GenericCHPBlock = None,
      groups_ExtractionTurbineCHPBlock = None\<rparr>"

text \<open>
  The model that \<^verbatim>\<open>OperationalModel.__init__\<close> builds for the energy system of the
  storage and the hourly time index of three entries, as the storage block sees it.
\<close>

definition example_storage_model :: model where
  "example_storage_model =
     \<lparr>TIMESTEPS = [0, 1, 2],
      timeincrement = PyNumber 1,
      previous_timesteps_dict = [0 \<mapsto> 2, 1 \<mapsto> 0, 2 \<mapsto> 1],
      FLOWS = [(''my_bus'', ''storage''), (''storage'', ''my_bus'')],
      es_groups = [''my_bus'' \<mapsto> ''my_bus'', ''storage'' \<mapsto> ''storage'']\<rparr>"

text \<open>
  Two extraction turbines with the parameters of the doctest of
  \<^verbatim>\<open>ExtractionTurbineCHP\<close>, fed from one gas bus and feeding one electricity and one
  heat bus, and a model of one timestep with their flows.
\<close>

definition example_turbine_1 :: ExtractionTurbineCHP where
  "example_turbine_1 =
     \<lparr>etchp_label = ''chp1'',
      etchp_inputs = [''bgas''],
      etchp_outputs = [''bel'', ''bth''],
      conversion_factors = [(''bel'', Sequence (PyNumber (3 / 10))),
                            (''bth'', Sequence (PyNumber (5 / 10)))],
      conversion_factor_full_condensation = [(''bel'', Sequence (PyNumber (5 / 10)))]\<rparr>"

definition example_turbine_2 :: ExtractionTurbineCHP where
  "example_turbine_2 = example_turbine_1\<lparr>etchp_label := ''chp2''\<rparr>"

definition example_turbine_model :: model where
  "example_turbine_model =
     \<lparr>TIMESTEPS = [0],
      timeincrement = PyNumber 1,
      previous_timesteps_dict = [0 \<mapsto> 0],
      FLOWS = [(''bgas'', ''chp1''), (''chp1'', ''bel''), (''chp1'', ''bth''),
               (''bgas'', ''chp2''), (''chp2'', ''bel''), (''chp2'', ''bth'')],
      es_groups = [''bgas'' \<mapsto> ''bgas'', ''bel'' \<mapsto> ''bel'', ''bth'' \<mapsto> ''bth'']\<rparr>"

text \<open>
  A solved model of one timestep with a bus, a plain storage \<open>s1\<close> and an investment
  storage \<open>s2\<close>, both of a class named \<^verbatim>\<open>Storage\<close>: each of the two storage blocks
  holds the levels of its own storage.
\<close>

definition example_mixed_solution :: solution where
  "example_mixed_solution =
     \<lparr>solved_nodes =
        [\<lparr>node_label = ''bus'', node_inputs = [''s1'', ''s2''],
          node_outputs = [''s1'', ''s2''], node_classes = [''Bus'', ''Node'']\<rparr>,
         \<lparr>node_label = ''s1'', node_inputs = [''bus''], node_outputs = [''bus''],
          node_classes = [''Storage'', ''Transformer'', ''Node'']\<rparr>,
         \<lparr>node_label = ''s2'', node_inputs = [''bus''], node_outputs = [''bus''],
          node_classes = [''Storage'', ''Transformer'', ''Node'']\<rparr>],
      solved_TIMESTEPS = [0],
      flow_value = [(''bus'', ''s1'', 0) \<mapsto> 100, (''s1'', ''bus'', 0) \<mapsto> 0,
                    (''bus'', ''s2'', 0) \<mapsto> 50, (''s2'', ''bus'', 0) \<mapsto> 0],
      Storage_capacity = Some [(''s1'', 0) \<mapsto> 90],
      InvestmentStorage_capacity = Some [(''s2'', 0) \<mapsto> 45],
      objective_value = 0\<rparr>"

text \<open>The same model without the investment storage, and without the plain storage.\<close>

definition example_plain_solution :: solution where
  "example_plain_solution =
     \<lparr>solved_nodes =
        [\<lparr>node_label = ''bus'', node_inputs = [''s1''],
          node_outputs = [''s1''], node_classes = [''Bus'', ''Node'']\<rparr>,
         \<lparr>node_label = ''s1'', node_inputs = [''bus''], node_outputs = [''bus''],
          node_classes = [''Storage'', ''Transformer'', ''Node'']\<rparr>],
      solved_TIMESTEPS = [0],
      flow_value = [(''bus'', ''s1'', 0) \<mapsto> 100, (''s1'', ''bus'', 0) \<mapsto> 0],
      Storage_capacity = Some [(''s1'', 0) \<mapsto> 90],
      InvestmentStorage_capacity = None,
      objective_value = 0\<rparr>"



section \<open>Properties of \<^verbatim>\<open>_Sequence\<close>\<close>

lemma list_getitem_error: "list_getitem xs k = Inl e \<Longrightarrow> e = IndexError"
  by (auto simp: list_getitem_def split: if_splits)

lemma list_setitem_error: "list_setitem xs k v = Inl e \<Longrightarrow> e = IndexError"
  by (auto simp: list_setitem_def split: if_splits)

lemma getitem_len: "0 \<le> k \<Longrightarrow> len (snd (getitem s k)) = max (len s) (nat k + 1)"
  by (auto simp: getitem_def len_def list_getitem_def list_repeat_def Let_def
      split: sum.splits error.splits if_splits)

lemma setitem_len: "0 \<le> k \<Longrightarrow> len (snd (setitem s k v)) = max (len s) (nat k + 1)"
  by (auto simp: setitem_def len_def list_setitem_def list_repeat_def Let_def
      split: sum.splits error.splits if_splits)

lemma setitem_returns: "0 \<le> k \<Longrightarrow> fst (setitem s k v) = None"
  by (auto simp: setitem_def list_setitem_def list_repeat_def Let_def
      split: sum.splits error.splits if_splits)

lemma getitem_constant:
  "0 \<le> k \<Longrightarrow> is_constant s \<Longrightarrow>
     fst (getitem s k) = Inr (default_value s) \<and> is_constant (snd (getitem s k))"
  by (auto simp: getitem_def is_constant_def list_getitem_def list_repeat_def Let_def
      list_all_iff nth_append split: sum.splits error.splits if_splits)

lemma getitem_returns: "- int (len s) \<le> k \<Longrightarrow> \<exists>v. fst (getitem s k) = Inr v"
  by (auto simp: getitem_def len_def list_getitem_def list_repeat_def Let_def
      split: sum.splits error.splits if_splits)

lemma getitem_len_mono: "len s \<le> len (snd (getitem s k))"
  by (auto simp: getitem_def len_def list_getitem_def list_repeat_def Let_def
      split: sum.splits error.splits if_splits)

lemma setitem_len_mono: "len s \<le> len (snd (setitem s k v))"
  by (auto simp: setitem_def len_def list_setitem_def list_repeat_def Let_def
      split: sum.splits error.splits if_splits)

text \<open>
  A read at an index \<open>k \<ge> 0\<close> returns the same after any earlier read: the
  materialisation that a read leaves behind is not observable by later reads.
\<close>

lemma getitem_after_getitem:
  "0 \<le> k \<Longrightarrow> fst (getitem (snd (getitem s j)) k) = fst (getitem s k)"
  by (auto simp: getitem_def list_getitem_def list_repeat_def Let_def nth_append
      split: sum.splits error.splits if_splits)

lemma Sequence_scalar_constant: "is_constant (Sequence_scalar d)"
  by (simp add: is_constant_def Sequence_scalar_def)

text \<open>
  Claim C4, as the code has it. For a sequence with default \<open>d\<close> and an index \<open>k \<ge> 0\<close>:
  while the sequence is constant (a wrapped scalar that no write has changed), the read
  at \<open>k\<close> returns \<open>d\<close> and leaves the sequence constant; after a read or a write at \<open>k\<close>
  the length is the larger of the length before and \<open>k + 1\<close>, so it is \<open>k + 1\<close> exactly
  when the length before was at most \<open>k + 1\<close>. The length never shrinks.
\<close>

theorem Sequence_index_default_and_length:
  assumes "0 \<le> k"
  shows "(is_constant s \<longrightarrow>
            fst (getitem s k) = Inr (default_value s) \<and> is_constant (snd (getitem s k)))
       \<and> len (snd (getitem s k)) = max (len s) (nat k + 1)
       \<and> (len (snd (getitem s k)) = nat k + 1 \<longleftrightarrow> len s \<le> nat k + 1)
       \<and> fst (setitem s k v) = None
       \<and> len (snd (setitem s k v)) = max (len s) (nat k + 1)
       \<and> (len (snd (setitem s k v)) = nat k + 1 \<longleftrightarrow> len s \<le> nat k + 1)"
proof -
  have g: "len (snd (getitem s k)) = max (len s) (nat k + 1)"
    using assms by (rule getitem_len)
  have w: "len (snd (setitem s k v)) = max (len s) (nat k + 1)"
    using assms by (rule setitem_len)
  have "len (snd (getitem s k)) = nat k + 1 \<longleftrightarrow> len s \<le> nat k + 1"
    unfolding g by (simp add: max_def)
  moreover have "len (snd (setitem s k v)) = nat k + 1 \<longleftrightarrow> len s \<le> nat k + 1"
    unfolding w by (simp add: max_def)
  ultimately show ?thesis
    using assms g w getitem_constant [of k s] setitem_returns [of k s v] by blast
qed

text \<open>
  Witness of C4: the doctest of the class, \<^verbatim>\<open>s = _Sequence(default=42); s[2]\<close> gives 42
  and length 3, and a write at index 2 gives length 3 as well.
\<close>

theorem Sequence_index_default_and_length_witness:
  "fst (getitem (Sequence_scalar (42::int)) 2) = Inr 42
   \<and> len (snd (getitem (Sequence_scalar (42::int)) 2)) = 3
   \<and> fst (setitem (Sequence_scalar (42::int)) 2 23) = None
   \<and> len (snd (setitem (Sequence_scalar (42::int)) 2 23)) = 3"
proof -
  have k: "(0::int) \<le> 2" by simp
  have c: "is_constant (Sequence_scalar (42::int))" by (rule Sequence_scalar_constant)
  have l: "len (Sequence_scalar (42::int)) = 0" by (simp add: len_def Sequence_scalar_def)
  have d: "default_value (Sequence_scalar (42::int)) = 42" by (simp add: Sequence_scalar_def)
  show ?thesis
    using Sequence_index_default_and_length [OF k, of "Sequence_scalar (42::int)" 23] c l d
    by simp
qed

text \<open>
  Counterexample to C4 as stated: after \<^verbatim>\<open>s[2]\<close>, a read at index 0 leaves the length
  at 3, not at \<open>0 + 1\<close>; and after the write \<^verbatim>\<open>s[0] = 23\<close> of the doctest the read at
  index 0 returns 23, not the default 42.
\<close>

theorem Sequence_length_counterexample:
  "len (snd (getitem (snd (getitem (Sequence_scalar (42::int)) 2)) 0)) = 3
   \<and> len (snd (getitem (snd (getitem (Sequence_scalar (42::int)) 2)) 0)) \<noteq> nat 0 + 1
   \<and> len (snd (setitem (snd (getitem (Sequence_scalar (42::int)) 2)) 0 23)) = 3
   \<and> fst (getitem (snd (setitem (snd (getitem (Sequence_scalar (42::int)) 2)) 0 23)) 0)
       = Inr 23"
  by (simp add: getitem_def setitem_def list_setitem_def len_def list_getitem_def
      list_repeat_def Sequence_scalar_def Let_def)

text \<open>
  Claim C5, as the code has it. For every sequence and every integer index \<open>k\<close> with
  \<open>k \<ge> - len\<close> (so every \<open>k \<ge> 0\<close>), the read returns a value and raises nothing; and
  for every integer index, also one whose read or write raises, the length after the
  read or the write is at least the length before.
\<close>

theorem Sequence_getitem_total_length_monotone:
  "(- int (len s) \<le> k \<longrightarrow> (\<exists>x. fst (getitem s k) = Inr x))
   \<and> len s \<le> len (snd (getitem s k))
   \<and> len s \<le> len (snd (setitem s k v))"
  using getitem_returns [of s k] getitem_len_mono [of s k] setitem_len_mono [of s k v]
  by blast

text \<open>Witness of C5: a fresh wrapped scalar read at index 5.\<close>

theorem Sequence_getitem_total_length_monotone_witness:
  "(\<exists>x. fst (getitem (Sequence_scalar (42::int)) 5) = Inr x)
   \<and> 0 \<le> len (snd (getitem (Sequence_scalar (42::int)) 5))
   \<and> 0 \<le> len (snd (setitem (Sequence_scalar (42::int)) 5 7))"
proof -
  have l: "len (Sequence_scalar (42::int)) = 0" by (simp add: len_def Sequence_scalar_def)
  show ?thesis
    using Sequence_getitem_total_length_monotone [of "Sequence_scalar (42::int)" 5 7] l
    by simp
qed

text \<open>
  Counterexample to C5 as stated: on a fresh wrapped scalar the read at index \<open>-1\<close>
  raises IndexError. The handler extends the list by \<^verbatim>\<open>[default] * 0\<close> and the second,
  unguarded read fails again.
\<close>

theorem Sequence_getitem_negative_counterexample:
  "fst (getitem (Sequence_scalar (42::int)) (- 1)) = Inl IndexError"
  by (simp add: getitem_def list_getitem_def list_repeat_def Sequence_scalar_def Let_def)

section \<open>Properties of \<^verbatim>\<open>GenericStorage.__init__\<close>\<close>

lemma check_flow_investment:
  "check_flow I (Some ivm) ratio cap r h =
     (if nominal_value (h r) \<noteq> None then Inl (AttributeError (e_no_nv ''nominal_value''))
      else Inr (h(r := attach_investment I (h r))))"
  by (auto simp: check_flow_def and_then_def attach_investment_def fun_eq_iff)

lemma attach_investment_nominal_value:
  "nominal_value (attach_investment I f) = nominal_value f"
  by (simp add: attach_investment_def)

lemma attach_investment_twice:
  "attach_investment I (attach_investment I f) = attach_investment I f"
  by (simp add: attach_investment_def)

lemma attach_investment_present: "flow_investment (attach_investment I f) \<noteq> None"
  by (simp add: attach_investment_def)

lemma check_flows_investment:
  "check_flows I (Some ivm) ratio cap rs h =
     (if \<exists>r\<in>set rs. nominal_value (h r) \<noteq> None
        then Inl (AttributeError (e_no_nv ''nominal_value''))
      else Inr (\<lambda>r. if r \<in> set rs then attach_investment I (h r) else h r))"
proof (induction rs arbitrary: h)
  case Nil
  then show ?case by simp
next
  case (Cons r rs)
  show ?case
  proof (cases "nominal_value (h r) = None")
    case False
    then show ?thesis by (auto simp: check_flow_investment and_then_def)
  next
    case True
    let ?h1 = "h(r := attach_investment I (h r))"
    have n: "nominal_value (?h1 x) = nominal_value (h x)" for x
      by (simp add: attach_investment_nominal_value)
    have "check_flows I (Some ivm) ratio cap (r # rs) h
        = check_flows I (Some ivm) ratio cap rs ?h1"
      using True by (simp add: check_flow_investment and_then_def)
    also have "\<dots> = (if \<exists>x\<in>set rs. nominal_value (h x) \<noteq> None
        then Inl (AttributeError (e_no_nv ''nominal_value''))
      else Inr (\<lambda>x. if x \<in> set rs then attach_investment I (?h1 x) else ?h1 x))"
      unfolding Cons.IH n ..
    also have "\<dots> = (if \<exists>x\<in>set (r # rs). nominal_value (h x) \<noteq> None
        then Inl (AttributeError (e_no_nv ''nominal_value''))
      else Inr (\<lambda>x. if x \<in> set (r # rs) then attach_investment I (h x) else h x))"
      using True by (auto simp: fun_eq_iff attach_investment_twice)
    finally show ?thesis .
  qed
qed

lemma GenericStorage_init_investment_returns:
  assumes ivm: "kw_investment kw = Some ivm"
    and ok: "GenericStorage_init I kw h = Inr (s, h')"
    and r: "r \<in> set (map snd (kw_inputs kw @ kw_outputs kw))"
  shows "nominal_value (h r) = None \<and> h' r = attach_investment I (h r)"
proof -
  let ?ins = "map snd (kw_inputs kw)" and ?outs = "map snd (kw_outputs kw)"
  let ?h1 = "\<lambda>x. if x \<in> set ?ins then attach_investment I (h x) else h x"
  from ok ivm have cap: "kw_nominal_capacity kw = None"
    by (auto simp: GenericStorage_init_def Let_def split: if_splits)
  from ok ivm cap have ins: "\<forall>x\<in>set ?ins. nominal_value (h x) = None"
    by (auto simp: GenericStorage_init_def Let_def check_flows_investment and_then_def
        split: if_splits)
  then have c1: "check_flows I (Some ivm) (kw_nominal_input_capacity_ratio kw) None ?ins h
      = Inr ?h1"
    by (simp add: check_flows_investment)
  from ok ivm cap c1 have c2: "check_flows I (Some ivm) (kw_nominal_output_capacity_ratio kw)
      None ?outs ?h1 = Inr h'"
    by (simp add: GenericStorage_init_def Let_def and_then_def split: sum.splits)
  then have outs: "\<forall>x\<in>set ?outs. nominal_value (?h1 x) = None"
    and h': "h' = (\<lambda>x. if x \<in> set ?outs then attach_investment I (?h1 x) else ?h1 x)"
    by (auto simp: check_flows_investment split: if_splits)
  from outs have outs': "\<forall>x\<in>set ?outs. nominal_value (h x) = None"
    by (auto simp: attach_investment_nominal_value split: if_splits)
  from r ins outs' have "nominal_value (h r) = None" by auto
  moreover from r have "h' r = attach_investment I (h r)"
    unfolding h' by (auto simp: attach_investment_twice)
  ultimately show ?thesis by simp
qed

lemma GenericStorage_init_investment_raises:
  assumes ivm: "kw_investment kw = Some ivm"
    and r: "r \<in> set (map snd (kw_inputs kw @ kw_outputs kw))"
    and nv: "nominal_value (h r) \<noteq> None"
  shows "\<exists>msg. GenericStorage_init I kw h = Inl (AttributeError msg)"
proof (cases "GenericStorage_init I kw h")
  case (Inr p)
  obtain s h' where "p = (s, h')" by (cases p)
  with Inr GenericStorage_init_investment_returns [OF ivm _ r] nv show ?thesis by auto
next
  case (Inl e)
  have "\<exists>msg. e = AttributeError msg"
    using Inl ivm
    by (auto simp: GenericStorage_init_def Let_def check_flows_investment and_then_def
        split: if_splits sum.splits)
  with Inl show ?thesis by simp
qed

text \<open>
  Claim C10. For a \<^verbatim>\<open>GenericStorage\<close> constructed with an investment descriptor: when
  the constructor returns, every flow of its inputs and outputs carries an investment
  object (its own when it had one, the default \<^verbatim>\<open>Investment()\<close> otherwise) and has no
  nominal value; and when a flow of its inputs or outputs carries a nominal value
  before the call, the constructor raises (an AttributeError).
\<close>

theorem GenericStorage_investment_flows:
  assumes "kw_investment kw = Some ivm"
  shows "(\<forall>s h'. GenericStorage_init I kw h = Inr (s, h') \<longrightarrow>
            (\<forall>r\<in>set (map snd (kw_inputs kw @ kw_outputs kw)).
               flow_investment (h' r) \<noteq> None
               \<and> flow_investment (h' r) =
                   (case flow_investment (h r) of None \<Rightarrow> Some I | Some x \<Rightarrow> Some x)
               \<and> nominal_value (h' r) = None))
       \<and> ((\<exists>r\<in>set (map snd (kw_inputs kw @ kw_outputs kw)). nominal_value (h r) \<noteq> None)
            \<longrightarrow> (\<exists>msg. GenericStorage_init I kw h = Inl (AttributeError msg)))"
proof (intro conjI allI impI ballI)
  fix s h' r
  assume ok: "GenericStorage_init I kw h = Inr (s, h')"
    and r: "r \<in> set (map snd (kw_inputs kw @ kw_outputs kw))"
  from GenericStorage_init_investment_returns [OF assms ok r]
  have n: "nominal_value (h r) = None" and h': "h' r = attach_investment I (h r)"
    by simp_all
  show "flow_investment (h' r) \<noteq> None"
    unfolding h' by (rule attach_investment_present)
  show "flow_investment (h' r) =
      (case flow_investment (h r) of None \<Rightarrow> Some I | Some x \<Rightarrow> Some x)"
    unfolding h' by (simp add: attach_investment_def split: option.splits)
  show "nominal_value (h' r) = None"
    unfolding h' using n by (simp add: attach_investment_nominal_value)
next
  assume "\<exists>r\<in>set (map snd (kw_inputs kw @ kw_outputs kw)). nominal_value (h r) \<noteq> None"
  then obtain r where "r \<in> set (map snd (kw_inputs kw @ kw_outputs kw))"
    and "nominal_value (h r) \<noteq> None" by blast
  then show "\<exists>msg. GenericStorage_init I kw h = Inl (AttributeError msg)"
    by (rule GenericStorage_init_investment_raises [OF assms])
qed

text \<open>
  Witness of C10: the investment storage of the doctest. With two plain flows the
  constructor returns and both flows carry the default investment and no nominal value;
  with a nominal value of 10 on the output flow it raises.
\<close>

theorem GenericStorage_investment_flows_witness:
  "(\<exists>s h'. GenericStorage_init example_Investment_new example_investment_storage_kwargs
              example_flows = Inr (s, h')
      \<and> flow_investment (h' 0) = Some example_Investment_new
      \<and> flow_investment (h' 1) = Some example_Investment_new
      \<and> nominal_value (h' 0) = None \<and> nominal_value (h' 1) = None)
   \<and> (\<exists>msg. GenericStorage_init example_Investment_new example_investment_storage_kwargs
              example_flows_nominal = Inl (AttributeError msg))"
proof -
  let ?kw = example_investment_storage_kwargs
  have ivm: "kw_investment ?kw = Some \<lparr>maximum = None, ep_costs = Some 50\<rparr>"
    by (simp add: example_investment_storage_kwargs_def)
  have refs: "set (map snd (kw_inputs ?kw @ kw_outputs ?kw)) = {0, 1}"
    by (auto simp: example_investment_storage_kwargs_def)
  have ret: "\<exists>p. GenericStorage_init example_Investment_new ?kw example_flows = Inr p"
    by (simp add: GenericStorage_init_def Let_def example_investment_storage_kwargs_def
        check_flow_def and_then_def example_flows_def)
  then obtain s h' where
    ok: "GenericStorage_init example_Investment_new ?kw example_flows = Inr (s, h')"
    by auto
  have nv: "\<exists>r\<in>set (map snd (kw_inputs ?kw @ kw_outputs ?kw)).
      nominal_value (example_flows_nominal r) \<noteq> None"
    unfolding refs by (simp add: example_flows_nominal_def)
  note c10 = GenericStorage_investment_flows [OF ivm, of example_Investment_new]
  from c10 [of example_flows] ok refs
  have "flow_investment (h' 0) = Some example_Investment_new
      \<and> flow_investment (h' 1) = Some example_Investment_new
      \<and> nominal_value (h' 0) = None \<and> nominal_value (h' 1) = None"
    by (simp add: example_flows_def)
  moreover from c10 [of example_flows_nominal] nv
  have "\<exists>msg. GenericStorage_init example_Investment_new ?kw example_flows_nominal
      = Inl (AttributeError msg)"
    by blast
  ultimately show ?thesis using ok by blast
qed

section \<open>Properties of \<^verbatim>\<open>GenericCHP._calculate_alphas\<close>\<close>

lemma subscript_error: "subscript a i = Inl e \<Longrightarrow> e = TypeError \<or> e = IndexError"
  by (auto simp: subscript_def getitem_def Let_def list_getitem_def
      split: seqlike.splits sum.splits error.splits if_splits)

lemma linalg_solve_2:
  "linalg_solve (1, pmin) (1, pmax) (b1, b2) =
     (if pmax = pmin then Inl LinAlgError
      else Inr ((b1 * pmax - pmin * b2) / (pmax - pmin), (b2 - b1) / (pmax - pmin)))"
  by (simp add: linalg_solve_def)

lemma solution_rows:
  fixes pmin pmax b1 b2 :: real
  assumes "pmax \<noteq> pmin"
  shows "1 * ((b1 * pmax - pmin * b2) / (pmax - pmin)) + pmin * ((b2 - b1) / (pmax - pmin)) = b1"
    and "1 * ((b1 * pmax - pmin * b2) / (pmax - pmin)) + pmax * ((b2 - b1) / (pmax - pmin)) = b2"
proof -
  let ?d = "pmax - pmin"
  from assms have d: "?d \<noteq> 0" by simp
  have "1 * ((b1 * pmax - pmin * b2) / ?d) + pmin * ((b2 - b1) / ?d)
      = ((b1 * pmax - pmin * b2) + pmin * (b2 - b1)) / ?d"
    by (simp add: add_divide_distrib)
  also have "(b1 * pmax - pmin * b2) + pmin * (b2 - b1) = b1 * ?d"
    by (simp add: algebra_simps)
  also have "b1 * ?d / ?d = b1" using d by simp
  finally show "1 * ((b1 * pmax - pmin * b2) / ?d) + pmin * ((b2 - b1) / ?d) = b1" .
  have "1 * ((b1 * pmax - pmin * b2) / ?d) + pmax * ((b2 - b1) / ?d)
      = ((b1 * pmax - pmin * b2) + pmax * (b2 - b1)) / ?d"
    by (simp add: add_divide_distrib)
  also have "(b1 * pmax - pmin * b2) + pmax * (b2 - b1) = b2 * ?d"
    by (simp add: algebra_simps)
  also have "b2 * ?d / ?d = b2" using d by simp
  finally show "1 * ((b1 * pmax - pmin * b2) / ?d) + pmax * ((b2 - b1) / ?d) = b2" .
qed

lemma alphas_at_returns:
  assumes "alphas_at ef i = Inr x"
  shows "solves_system ef i (fst x) (snd x)"
proof -
  from assms obtain pmin pmax emin emax where
    r: "subscript (P_min_woDH ef) i = Inr pmin" "subscript (P_max_woDH ef) i = Inr pmax"
       "subscript (Eta_el_min_woDH ef) i = Inr emin" "subscript (Eta_el_max_woDH ef) i = Inr emax"
    and nz: "emin \<noteq> 0" "emax \<noteq> 0"
    and sol: "linalg_solve (1, pmin) (1, pmax) (pmin / emin, pmax / emax) = Inr x"
    by (auto simp: alphas_at_def and_then_def py_div_def split: sum.splits if_splits)
  from sol have ne: "pmax \<noteq> pmin"
    and x: "x = ((pmin / emin * pmax - pmin * (pmax / emax)) / (pmax - pmin),
                 (pmax / emax - pmin / emin) / (pmax - pmin))"
    by (auto simp: linalg_solve_2 split: if_splits)
  from solution_rows [OF ne, of "pmin / emin" "pmax / emax"] r nz show ?thesis
    unfolding x solves_system_def by simp
qed

lemma alphas_at_regular:
  assumes "regular_at ef i"
  shows "\<exists>x. alphas_at ef i = Inr x"
  using assms
  by (auto simp: regular_at_def alphas_at_def and_then_def py_div_def linalg_solve_2
      split: sum.splits)

lemma alphas_at_error:
  assumes "alphas_at ef i = Inl e"
  shows "e = TypeError \<or> e = IndexError \<or> e = ZeroDivisionError \<or> e = LinAlgError"
  using assms
  by (auto simp: alphas_at_def and_then_def py_div_def linalg_solve_2
      split: sum.splits if_splits dest: subscript_error)

lemma alphas_loop_error:
  "alphas_loop ef ixs acc = Inl e \<Longrightarrow>
     e = TypeError \<or> e = IndexError \<or> e = ZeroDivisionError \<or> e = LinAlgError"
proof (induction ixs arbitrary: acc)
  case Nil
  then show ?case by simp
next
  case (Cons i ixs)
  then show ?case
    by (auto simp: and_then_def split: sum.splits dest: alphas_at_error)
qed

lemma alphas_loop_returns:
  "alphas_loop ef ixs (a0, a1) = Inr (r0, r1) \<Longrightarrow>
     \<exists>xs. length xs = length ixs \<and> r0 = a0 @ map fst xs \<and> r1 = a1 @ map snd xs
        \<and> (\<forall>j<length ixs. alphas_at ef (ixs ! j) = Inr (xs ! j))"
proof (induction ixs arbitrary: a0 a1)
  case Nil
  then show ?case by simp
next
  case (Cons i ixs)
  from Cons.prems(1) obtain x where x: "alphas_at ef i = Inr x"
    and rest: "alphas_loop ef ixs (a0 @ [fst x], a1 @ [snd x]) = Inr (r0, r1)"
    by (auto simp: and_then_def split: sum.splits)
  from Cons.IH [OF rest] obtain xs where xs: "length xs = length ixs"
    "r0 = (a0 @ [fst x]) @ map fst xs" "r1 = (a1 @ [snd x]) @ map snd xs"
    "\<forall>j<length ixs. alphas_at ef (ixs ! j) = Inr (xs ! j)"
    by blast
  have "\<forall>j<length (i # ixs). alphas_at ef ((i # ixs) ! j) = Inr ((x # xs) ! j)"
    using x xs(4) by (auto simp: nth_Cons split: nat.splits)
  with xs(1-3) show ?case
    by (intro exI [of _ "x # xs"]) simp
qed

lemma alphas_loop_solves:
  assumes "alphas_loop ef ixs ([], []) = Inr (r0, r1)"
  shows "length r0 = length ixs \<and> length r1 = length ixs
     \<and> (\<forall>j<length ixs. solves_system ef (ixs ! j) (r0 ! j) (r1 ! j))"
proof -
  from alphas_loop_returns [OF assms] obtain xs where xs: "length xs = length ixs"
    "r0 = map fst xs" "r1 = map snd xs"
    "\<forall>j<length ixs. alphas_at ef (ixs ! j) = Inr (xs ! j)"
    by auto
  have "solves_system ef (ixs ! j) (r0 ! j) (r1 ! j)" if "j < length ixs" for j
    using alphas_at_returns [of ef "ixs ! j" "xs ! j"] xs that by simp
  with xs show ?thesis by simp
qed

lemma alphas_loop_regular:
  "\<forall>i\<in>set ixs. regular_at ef i \<Longrightarrow> \<exists>r. alphas_loop ef ixs acc = Inr r"
proof (induction ixs arbitrary: acc)
  case Nil
  then show ?case by simp
next
  case (Cons i ixs)
  from Cons.prems have "regular_at ef i" by simp
  from alphas_at_regular [OF this] obtain x where x: "alphas_at ef i = Inr x" ..
  from Cons.prems have "\<forall>i\<in>set ixs. regular_at ef i" by simp
  from Cons.IH [OF this] x show ?case by (simp add: and_then_def)
qed

lemma py_len_not_number: "py_len a = Inr l \<Longrightarrow> \<not> is_number a"
  by (auto simp: py_len_def is_number_def split: seqlike.splits)

lemma calculate_alphas_unfold:
  assumes eo: "electrical_output n = (eb, ef) # rest"
    and l1: "py_len (P_min_woDH ef) = Inr l1" and l2: "py_len (Eta_el_min_woDH ef) = Inr l2"
    and l3: "py_len (P_max_woDH ef) = Inr l3" and l4: "py_len (Eta_el_max_woDH ef) = Inr l4"
  shows "calculate_alphas n =
     (if l1 = l2 \<and> l2 = l3 \<and> l3 = l4
        then alphas_loop ef (map int [0..<(if l1 = 0 then 1 else l1)]) ([], [])
      else Inl (ValueError dimension_message))"
proof -
  let ?m = "fold max [l2, l3, l4] l1"
  have first: "list_getitem (map fst (electrical_output n)) 0 = Inr eb"
    and look: "dict_getitem (map_of (electrical_output n)) eb = Inr ef"
    using eo by (simp_all add: list_getitem_def dict_getitem_def)
  have lens: "lengths [P_min_woDH ef, Eta_el_min_woDH ef, P_max_woDH ef, Eta_el_max_woDH ef]
      = Inr [l1, l2, l3, l4]"
    using l1 l2 l3 l4 by (simp add: py_len_not_number and_then_def)
  have mx: "py_max [l1, l2, l3, l4] = Inr ?m" by (simp add: py_max_def)
  have same: "all_len_eq ?m [P_min_woDH ef, Eta_el_min_woDH ef, P_max_woDH ef,
      Eta_el_max_woDH ef] = Inr (l1 = ?m \<and> l2 = ?m \<and> l3 = ?m \<and> l4 = ?m)"
    using l1 l2 l3 l4 by (simp add: and_then_def)
  have step: "calculate_alphas n =
      (if l1 = ?m \<and> l2 = ?m \<and> l3 = ?m \<and> l4 = ?m
         then alphas_loop ef (map int [0..<(if ?m = 0 then ?m + 1 else ?m)]) ([], [])
       else Inl (ValueError dimension_message))"
    by (simp only: calculate_alphas_def first look lens mx same Let_def and_then_def
        sum.case)
  show ?thesis
  proof (cases "l1 = l2 \<and> l2 = l3 \<and> l3 = l4")
    case True
    then have "?m = l1" by simp
    with True show ?thesis unfolding step by simp
  next
    case False
    then have "\<not> (l1 = ?m \<and> l2 = ?m \<and> l3 = ?m \<and> l4 = ?m)" by auto
    with False show ?thesis unfolding step by (simp only: if_False)
  qed
qed

text \<open>
  Claim C6, as the code has it, for four inputs that are sequences (lists or wrapped
  scalars) of lengths \<open>l1\<close>, \<open>l2\<close>, \<open>l3\<close>, \<open>l4\<close>. The validation error is raised exactly
  when the lengths are not all equal. When the call returns, the lengths are equal and
  there is one pair of coefficients for every index below \<open>l1\<close> (below 1 when \<open>l1 = 0\<close>),
  each solving the system at its index. The call returns when the lengths are equal and
  at every such index the four values can be read, the efficiencies are not zero and the
  minimum and maximum power differ.
\<close>

theorem calculate_alphas_of_sequences:
  assumes eo: "electrical_output n = (eb, ef) # rest"
    and l1: "py_len (P_min_woDH ef) = Inr l1" and l2: "py_len (Eta_el_min_woDH ef) = Inr l2"
    and l3: "py_len (P_max_woDH ef) = Inr l3" and l4: "py_len (Eta_el_max_woDH ef) = Inr l4"
  shows "(calculate_alphas n = Inl (ValueError dimension_message)
            \<longleftrightarrow> \<not> (l1 = l2 \<and> l2 = l3 \<and> l3 = l4))
       \<and> (\<forall>a0 a1. calculate_alphas n = Inr (a0, a1) \<longrightarrow>
            l1 = l2 \<and> l2 = l3 \<and> l3 = l4
            \<and> length a0 = (if l1 = 0 then 1 else l1)
            \<and> length a1 = (if l1 = 0 then 1 else l1)
            \<and> (\<forall>i<(if l1 = 0 then 1 else l1). solves_system ef (int i) (a0 ! i) (a1 ! i)))
       \<and> (l1 = l2 \<and> l2 = l3 \<and> l3 = l4
            \<and> (\<forall>i<(if l1 = 0 then 1 else l1). regular_at ef (int i))
          \<longrightarrow> (\<exists>a0 a1. calculate_alphas n = Inr (a0, a1)))"
proof -
  let ?L = "if l1 = 0 then 1 else l1"
  let ?loop = "alphas_loop ef (map int [0..<?L]) ([], [])"
  note unfold = calculate_alphas_unfold [OF eo l1 l2 l3 l4]
  have no_ve: "?loop \<noteq> Inl (ValueError dimension_message)"
    using alphas_loop_error [of ef "map int [0..<?L]" "([], [])"] by auto
  have a: "calculate_alphas n = Inl (ValueError dimension_message)
      \<longleftrightarrow> \<not> (l1 = l2 \<and> l2 = l3 \<and> l3 = l4)"
    unfolding unfold using no_ve by (simp only: split: if_splits) auto
  have b: "l1 = l2 \<and> l2 = l3 \<and> l3 = l4 \<and> length a0 = ?L \<and> length a1 = ?L
      \<and> (\<forall>i<?L. solves_system ef (int i) (a0 ! i) (a1 ! i))"
    if ret: "calculate_alphas n = Inr (a0, a1)" for a0 a1
  proof -
    from ret have eq: "l1 = l2 \<and> l2 = l3 \<and> l3 = l4" and loop: "?loop = Inr (a0, a1)"
      unfolding unfold by (auto split: if_splits)
    from alphas_loop_solves [OF loop] eq show ?thesis by simp
  qed
  have c: "\<exists>a0 a1. calculate_alphas n = Inr (a0, a1)"
    if "l1 = l2 \<and> l2 = l3 \<and> l3 = l4 \<and> (\<forall>i<?L. regular_at ef (int i))"
  proof -
    from that have "\<forall>i\<in>set (map int [0..<?L]). regular_at ef i" by auto
    from alphas_loop_regular [OF this, of "([], [])"] obtain r where "?loop = Inr r" ..
    with that show ?thesis unfolding unfold by (cases r) simp
  qed
  from a b c show ?thesis by blast
qed

text \<open>
  Witness of C6: the extraction turbine of the doctest, four lists of length 1, for which
  the call returns one pair of coefficients that solves the system at index 0; and the
  same turbine with a list of two minimum powers, for which the validation error is
  raised.
\<close>

theorem calculate_alphas_of_sequences_witness:
  "(\<exists>a0 a1. calculate_alphas example_ccet = Inr (a0, a1) \<and> length a0 = 1 \<and> length a1 = 1
      \<and> solves_system example_electrical_Flow 0 (a0 ! 0) (a1 ! 0))
   \<and> calculate_alphas example_ccet \<noteq> Inl (ValueError dimension_message)
   \<and> calculate_alphas example_chp_lengths_differ = Inl (ValueError dimension_message)"
proof -
  let ?ef = example_electrical_Flow
  let ?ef2 = "example_electrical_Flow\<lparr>P_min_woDH := PyList [68787 / 1000, 70]\<rparr>"
  have eo: "electrical_output example_ccet = (''bel'', ?ef) # []"
    by (simp add: example_ccet_def)
  have eo2: "electrical_output example_chp_lengths_differ = (''bel'', ?ef2) # []"
    by (simp add: example_chp_lengths_differ_def example_ccet_def)
  have l: "py_len (P_min_woDH ?ef) = Inr 1" "py_len (Eta_el_min_woDH ?ef) = Inr 1"
    "py_len (P_max_woDH ?ef) = Inr 1" "py_len (Eta_el_max_woDH ?ef) = Inr 1"
    by (simp_all add: example_electrical_Flow_def py_len_def)
  have l': "py_len (P_min_woDH ?ef2) = Inr 2" "py_len (Eta_el_min_woDH ?ef2) = Inr 1"
    "py_len (P_max_woDH ?ef2) = Inr 1" "py_len (Eta_el_max_woDH ?ef2) = Inr 1"
    by (simp_all add: example_electrical_Flow_def py_len_def)
  have reg: "regular_at ?ef 0"
    by (simp add: regular_at_def example_electrical_Flow_def subscript_def list_getitem_def)
  note w = calculate_alphas_of_sequences [OF eo l]
  from w reg obtain a0 a1 where ret: "calculate_alphas example_ccet = Inr (a0, a1)"
    by auto
  with w have "length a0 = 1 \<and> length a1 = 1 \<and> solves_system ?ef 0 (a0 ! 0) (a1 ! 0)"
    by auto
  moreover from w have "calculate_alphas example_ccet \<noteq> Inl (ValueError dimension_message)"
    by simp
  moreover from calculate_alphas_of_sequences [OF eo2 l']
  have "calculate_alphas example_chp_lengths_differ = Inl (ValueError dimension_message)"
    by simp
  ultimately show ?thesis using ret by blast
qed

text \<open>
  Counterexample to C6 as stated. Four lists of the same length with equal minimum and
  maximum power: the call does not succeed, the solver raises LinAlgError. Four plain
  numbers, which have the same effective length: the call does not succeed either,
  \<^verbatim>\<open>max\<close> of the empty list of lengths raises a ValueError of its own.
\<close>

theorem calculate_alphas_counterexample:
  "calculate_alphas example_chp_singular = Inl LinAlgError
   \<and> calculate_alphas example_chp_numbers
       = Inl (ValueError ''max() arg is an empty sequence'')"
  by (simp add: calculate_alphas_def example_chp_singular_def example_chp_numbers_def
      example_ccet_def example_electrical_Flow_def and_then_def list_getitem_def
      dict_getitem_def py_len_def is_number_def py_max_def subscript_def alphas_at_def
      py_div_def linalg_solve_def Let_def)

section \<open>Properties of \<^verbatim>\<open>GenericCHPBlock._create\<close>\<close>

















section \<open>Properties of the time index\<close>

lemma timesteps_last: "1 \<le> N \<Longrightarrow> list_getitem (timesteps N) (- 1) = Inr (int N - 1)"
  by (auto simp: list_getitem_def timesteps_def nat_diff_distrib)

text \<open>
  Claim C8. For a model with \<open>N \<ge> 1\<close> timesteps the dictionary of previous timesteps is
  built without an error, maps 0 to \<open>N - 1\<close> and every \<open>t\<close> with \<open>1 \<le> t \<le> N - 1\<close> to
  \<open>t - 1\<close>.
\<close>

theorem previous_timesteps_wraps:
  assumes "1 \<le> N"
  shows "\<exists>prev. previous_timesteps N = Inr prev \<and> prev 0 = Some (int N - 1) \<and>
     (\<forall>t. 1 \<le> t \<and> t \<le> int N - 1 \<longrightarrow> prev t = Some (t - 1))"
proof -
  let ?ts = "timesteps N"
  let ?prev = "(map (\<lambda>x. x - 1) ?ts)[0 := int N - 1]"
  have set0: "list_setitem (map (\<lambda>x. x - 1) ?ts) 0 (int N - 1) = Inr ?prev"
    using assms by (simp add: list_setitem_def timesteps_def)
  have eq: "previous_timesteps N = Inr (map_of (zip ?ts ?prev))"
    using assms by (simp add: previous_timesteps_def timesteps_last set0)
  have d: "distinct ?ts" by (simp add: timesteps_def distinct_map inj_on_def)
  have look: "map_of (zip ?ts ?prev) (?ts ! i) = Some (?prev ! i)" if "i < N" for i
    using that d by (intro map_of_zip_nth) (simp_all add: timesteps_def)
  have z: "map_of (zip ?ts ?prev) 0 = Some (int N - 1)"
    using look [of 0] assms by (simp add: timesteps_def)
  have s: "map_of (zip ?ts ?prev) t = Some (t - 1)" if "1 \<le> t" "t \<le> int N - 1" for t
  proof -
    have "nat t < N" using that by linarith
    from look [OF this] that show ?thesis by (simp add: timesteps_def)
  qed
  show ?thesis using eq z s by blast
qed

text \<open>Witness of C8: three timesteps, previous(0) = 2, previous(1) = 0, previous(2) = 1.\<close>

theorem previous_timesteps_wraps_witness:
  "\<exists>prev. previous_timesteps 3 = Inr prev \<and> prev 0 = Some 2 \<and> prev 1 = Some 0
     \<and> prev 2 = Some 1"
proof -
  have n: "1 \<le> (3::nat)" by simp
  from previous_timesteps_wraps [OF n] obtain prev where
    p: "previous_timesteps 3 = Inr prev" "prev 0 = Some (int 3 - 1)"
       "\<forall>t. 1 \<le> t \<and> t \<le> int 3 - 1 \<longrightarrow> prev t = Some (t - 1)"
    by blast
  from p(3) have "prev 1 = Some 0" "prev 2 = Some 1" by simp_all
  with p(1,2) show ?thesis by simp
qed

section \<open>Properties of \<^verbatim>\<open>OperationalModel.__init__\<close>\<close>

lemma init_store:
  "kw_timeindex kw = Some ti \<Longrightarrow>
     snd (OperationalModel_init e kw st) =
       list_extend st CONSTRAINT_GROUPS
         (case kw_constraint_groups kw of None \<Rightarrow> [] | Some gs \<Rightarrow> gs)"
  by (simp add: OperationalModel_init_def Let_def)

lemma list_comprehension_tagged:
  "list_comprehension (\<lambda>x. and_then (f x) (\<lambda>b. Inr (x, b))) xs = Inr bs \<Longrightarrow> map fst bs = xs"
proof (induction xs arbitrary: bs)
  case Nil
  then show ?case by simp
next
  case (Cons x xs)
  then show ?case
    by (auto simp: and_then_def split: sum.splits)
qed

lemma init_returns:
  assumes "OperationalModel_init e kw st = (Inr mdl, st')"
  shows "map fst (blocks mdl) = st' CONSTRAINT_GROUPS
     \<and> constraint_groups_ref mdl = CONSTRAINT_GROUPS
     \<and> (\<exists>x. timeincrement (parent mdl) = PyNumber x)
     \<and> TIMESTEPS (parent mdl) \<noteq> []"
proof -
  from assms obtain ti where ti: "kw_timeindex kw = Some ti"
    by (auto simp: OperationalModel_init_def split: option.splits)
  from assms ti have st': "st' = list_extend st CONSTRAINT_GROUPS
         (case kw_constraint_groups kw of None \<Rightarrow> [] | Some gs \<Rightarrow> gs)"
    using init_store [OF ti, of e st] by simp
  from assms ti obtain prev bs where
    prev: "previous_timesteps (timeindex_len ti) = Inr prev"
    and bs: "list_comprehension
        (\<lambda>cls. and_then (create_block e
           \<lparr>TIMESTEPS = timesteps (timeindex_len ti),
            timeincrement = PyNumber (real_of_int (freq_nanos ti) / 3600000000000),
            previous_timesteps_dict = prev, FLOWS = flows_of e, es_groups = groups_label e\<rparr>
           cls) (\<lambda>b. Inr (cls, b)))
        (st' CONSTRAINT_GROUPS) = Inr bs"
    and mdl: "blocks mdl = bs" "constraint_groups_ref mdl = CONSTRAINT_GROUPS"
      "parent mdl = \<lparr>TIMESTEPS = timesteps (timeindex_len ti),
            timeincrement = PyNumber (real_of_int (freq_nanos ti) / 3600000000000),
            previous_timesteps_dict = prev, FLOWS = flows_of e, es_groups = groups_label e\<rparr>"
    unfolding st'
    by (auto simp: OperationalModel_init_def Let_def and_then_def split: sum.splits)
  have "previous_timesteps 0 = Inl IndexError"
    by (simp add: previous_timesteps_def timesteps_def list_getitem_def)
  with prev have "timeindex_len ti \<noteq> 0"
    by (cases "timeindex_len ti = 0") simp_all
  then have "timesteps (timeindex_len ti) \<noteq> []" by (simp add: timesteps_def)
  then have "TIMESTEPS (parent mdl) \<noteq> []" by (simp add: mdl(3))
  moreover have "\<exists>x. timeincrement (parent mdl) = PyNumber x"
    unfolding mdl(3) by (simp only: model.simps) blast
  ultimately show ?thesis using list_comprehension_tagged [OF bs] mdl(1,2) by simp
qed

lemma previous_timesteps_returns:
  assumes "1 \<le> N"
  shows "\<exists>prev. previous_timesteps N = Inr prev"
proof -
  have "\<exists>prev. list_setitem (map (\<lambda>x. x - 1) (timesteps N)) 0 (int N - 1) = Inr prev"
    using assms by (simp add: list_setitem_def timesteps_def)
  then show ?thesis
    using assms by (auto simp: previous_timesteps_def timesteps_last)
qed

lemma list_comprehension_total:
  "\<forall>x\<in>set xs. \<exists>y. f x = Inr y \<Longrightarrow> \<exists>ys. list_comprehension f xs = Inr ys"
proof (induction xs)
  case Nil
  then show ?case by simp
next
  case (Cons x xs)
  then obtain y ys where "f x = Inr y" "list_comprehension f xs = Inr ys" by auto
  then show ?case by (simp add: and_then_def)
qed

lemma create_block_no_groups:
  assumes "groups_GenericStorageBlock e = None"
    and "groups_GenericInvestmentStorageBlock e = None"
    and "groups_GenericCHPBlock e = None"
    and "groups_ExtractionTurbineCHPBlock e = None"
  shows "\<exists>b. create_block e m cls = Inr b"
  using assms
  by (cases cls)
    (simp_all add: create_block_def and_then_def GenericStorageBlock_create_def
      GenericInvestmentStorageBlock_create_def storage_block_create_def
      GenericCHPBlock_create_def
      ExtractionTurbineCHPBlock_create_def)

lemma init_no_groups_returns:
  assumes g: "groups_GenericStorageBlock e = None"
    "groups_GenericInvestmentStorageBlock e = None"
    "groups_GenericCHPBlock e = None"
    "groups_ExtractionTurbineCHPBlock e = None"
    and ti: "kw_timeindex kw = Some ti" and n: "1 \<le> timeindex_len ti"
  shows "\<exists>mdl. fst (OperationalModel_init e kw st) = Inr mdl"
proof -
  from previous_timesteps_returns [OF n] obtain prev where
    prev: "previous_timesteps (timeindex_len ti) = Inr prev" ..
  let ?m = "\<lparr>TIMESTEPS = timesteps (timeindex_len ti),
            timeincrement = PyNumber (real_of_int (freq_nanos ti) / 3600000000000),
            previous_timesteps_dict = prev, FLOWS = flows_of e, es_groups = groups_label e\<rparr>"
  let ?st' = "list_extend st CONSTRAINT_GROUPS
      (case kw_constraint_groups kw of None \<Rightarrow> [] | Some gs \<Rightarrow> gs)"
  have "\<forall>cls\<in>set (?st' CONSTRAINT_GROUPS).
      \<exists>y. and_then (create_block e ?m cls) (\<lambda>b. Inr (cls, b)) = Inr y"
  proof (intro ballI)
    fix cls
    from create_block_no_groups [OF g, of ?m cls] obtain b where
      "create_block e ?m cls = Inr b" ..
    then show "\<exists>y. and_then (create_block e ?m cls) (\<lambda>b. Inr (cls, b)) = Inr y"
      by (simp add: and_then_def)
  qed
  from list_comprehension_total [OF this] obtain bs where
    "list_comprehension (\<lambda>cls. and_then (create_block e ?m cls) (\<lambda>b. Inr (cls, b)))
       (?st' CONSTRAINT_GROUPS) = Inr bs" ..
  then show ?thesis
    by (simp add: OperationalModel_init_def ti Let_def prev and_then_def)
qed


text \<open>
  Claim C9. A construction with the argument \<^verbatim>\<open>constraint_groups\<close> extends the list
  object of the class attribute \<^verbatim>\<open>CONSTRAINT_GROUPS\<close> in place, whether or not the
  construction then succeeds. Every later construction without the argument that
  returns has its \<^verbatim>\<open>_constraint_groups\<close> bound to that same object, leaves it as it
  found it (the default list is not restored), and has instantiated one block for every
  class of the extended list, the added classes among them.
\<close>

theorem constraint_groups_shared:
  assumes "kw_timeindex kw1 = Some ti" and "kw_constraint_groups kw1 = Some gs"
    and "kw_constraint_groups kw2 = None"
  shows "snd (OperationalModel_init e1 kw1 st) CONSTRAINT_GROUPS = st CONSTRAINT_GROUPS @ gs
     \<and> (\<forall>mdl st2. OperationalModel_init e2 kw2 (snd (OperationalModel_init e1 kw1 st))
                     = (Inr mdl, st2) \<longrightarrow>
           constraint_groups_ref mdl = CONSTRAINT_GROUPS
           \<and> st2 CONSTRAINT_GROUPS = st CONSTRAINT_GROUPS @ gs
           \<and> map fst (blocks mdl) = st CONSTRAINT_GROUPS @ gs)"
proof -
  let ?st1 = "snd (OperationalModel_init e1 kw1 st)"
  have first: "?st1 CONSTRAINT_GROUPS = st CONSTRAINT_GROUPS @ gs"
    using assms(1,2) by (simp add: init_store list_extend_def)
  have "constraint_groups_ref mdl = CONSTRAINT_GROUPS
      \<and> st2 CONSTRAINT_GROUPS = st CONSTRAINT_GROUPS @ gs
      \<and> map fst (blocks mdl) = st CONSTRAINT_GROUPS @ gs"
    if second: "OperationalModel_init e2 kw2 ?st1 = (Inr mdl, st2)" for mdl st2
  proof -
    from second obtain ti2 where ti2: "kw_timeindex kw2 = Some ti2"
      by (auto simp: OperationalModel_init_def split: option.splits)
    from init_store [OF ti2, of e2 ?st1] second assms(3)
    have "st2 = list_extend ?st1 CONSTRAINT_GROUPS []" by simp
    then have "st2 CONSTRAINT_GROUPS = ?st1 CONSTRAINT_GROUPS"
      by (simp add: list_extend_def)
    with init_returns [OF second] first show ?thesis by simp
  qed
  with first show ?thesis by blast
qed

text \<open>
  Witness of C9: on the store of the freshly loaded module, a construction with
  \<^verbatim>\<open>constraint_groups=[GenericStorageBlock]\<close>, then one without the argument (both on
  the energy system without nodes): the second model holds eight blocks, the eighth of
  the class \<^verbatim>\<open>GenericStorageBlock\<close>.
\<close>

theorem constraint_groups_shared_witness:
  "snd (OperationalModel_init example_empty_es example_kwargs_storage_block module_lists)
       CONSTRAINT_GROUPS
     = [blocks_Bus, blocks_LinearTransformer, blocks_Storage, blocks_InvestmentFlow,
        blocks_InvestmentStorage, blocks_Flow, blocks_Discrete, GenericStorageBlock]
   \<and> (\<exists>mdl st2. OperationalModel_init example_empty_es example_kwargs_plain
          (snd (OperationalModel_init example_empty_es example_kwargs_storage_block
                  module_lists)) = (Inr mdl, st2)
        \<and> map fst (blocks mdl)
            = [blocks_Bus, blocks_LinearTransformer, blocks_Storage, blocks_InvestmentFlow,
               blocks_InvestmentStorage, blocks_Flow, blocks_Discrete, GenericStorageBlock])"
proof -
  let ?st1 = "snd (OperationalModel_init example_empty_es example_kwargs_storage_block
      module_lists)"
  have k1: "kw_timeindex example_kwargs_storage_block = Some example_timeindex"
    "kw_constraint_groups example_kwargs_storage_block = Some [GenericStorageBlock]"
    by (simp_all add: example_kwargs_storage_block_def example_kwargs_plain_def)
  have k2: "kw_constraint_groups example_kwargs_plain = None"
    "kw_timeindex example_kwargs_plain = Some example_timeindex"
    by (simp_all add: example_kwargs_plain_def)
  note c9 = constraint_groups_shared [OF k1 k2(1), of example_empty_es module_lists
      example_empty_es]
  have m0: "module_lists CONSTRAINT_GROUPS =
      [blocks_Bus, blocks_LinearTransformer, blocks_Storage, blocks_InvestmentFlow,
       blocks_InvestmentStorage, blocks_Flow, blocks_Discrete]"
    by (simp add: module_lists_def)
  from c9 m0 have st1: "?st1 CONSTRAINT_GROUPS =
      [blocks_Bus, blocks_LinearTransformer, blocks_Storage, blocks_InvestmentFlow,
       blocks_InvestmentStorage, blocks_Flow, blocks_Discrete, GenericStorageBlock]"
    by simp
  have "\<exists>mdl. fst (OperationalModel_init example_empty_es example_kwargs_plain ?st1)
      = Inr mdl"
    by (rule init_no_groups_returns [OF _ _ _ _ k2(2)])
      (simp_all add: example_empty_es_def example_timeindex_def)
  then obtain mdl st2 where
    ret: "OperationalModel_init example_empty_es example_kwargs_plain ?st1 = (Inr mdl, st2)"
    by (metis prod.collapse)
  with c9 m0 have bl: "map fst (blocks mdl) =
      [blocks_Bus, blocks_LinearTransformer, blocks_Storage, blocks_InvestmentFlow,
       blocks_InvestmentStorage, blocks_Flow, blocks_Discrete, GenericStorageBlock]"
    by simp
  show ?thesis
    by (intro conjI exI) (rule st1, rule ret, rule bl)
qed

section \<open>Properties of the two storage blocks\<close>

text \<open>
  The balance rule subscripts \<^verbatim>\<open>m.timeincrement\<close> (lines 249, 251, 394 and 396 of
  components.py). \<^verbatim>\<open>OperationalModel.__init__\<close> sets \<^verbatim>\<open>self.timeincrement\<close> to a
  number (line 135 of plumbing.py), and a number is not subscriptable: for such a model
  the rule raises for every storage and every timestep, and no \<^verbatim>\<open>OperationalModel\<close>
  that holds one of the two storage blocks and a storage of its group is ever built.
\<close>

lemma storage_balance_rule_number:
  assumes "timeincrement m = PyNumber x"
  shows "\<exists>e. storage_balance_rule blk m S i_n o_n n t = Inl e"
  using assms
  by (auto simp: storage_balance_rule_def and_then_def subscript_def split: sum.splits)

lemma Constraint_rule_calls:
  "Constraint_rule name rule ks acc = Inr cs \<Longrightarrow> (n, t) \<in> set ks \<Longrightarrow> \<exists>c. rule n t = Inr c"
proof (induction ks arbitrary: acc)
  case Nil
  then show ?case by simp
next
  case (Cons a ks)
  obtain n0 t0 where a: "a = (n0, t0)" by (cases a)
  from Cons.prems(1) a obtain c0 where c0: "rule n0 t0 = Inr c0"
    and rest: "Constraint_rule name rule ks (acc((name n0, t0) \<mapsto> c0)) = Inr cs"
    by (auto simp: and_then_def split: sum.splits)
  show ?case
  proof (cases "(n, t) = (n0, t0)")
    case True
    with c0 show ?thesis by simp
  next
    case False
    with Cons.prems(2) a have "(n, t) \<in> set ks" by auto
    from Cons.IH [OF rest this] show ?thesis .
  qed
qed

lemma storage_block_create_number:
  assumes ti: "timeincrement m = PyNumber x" and g: "g \<noteq> []" and ts: "TIMESTEPS m \<noteq> []"
  shows "\<exists>e. storage_block_create blk m (Some g) = Inl e"
proof (cases "storage_block_create blk m (Some g)")
  case (Inl e)
  then show ?thesis by simp
next
  case (Inr b)
  then obtain i_n o_n bal where
    "Constraint_rule label (storage_balance_rule blk m (map label g) i_n o_n)
       (List.product g (TIMESTEPS m)) Map.empty = Inr bal"
    by (auto simp: storage_block_create_def and_then_def split: sum.splits)
  moreover from g ts have "(hd g, hd (TIMESTEPS m)) \<in> set (List.product g (TIMESTEPS m))"
    by simp
  ultimately obtain c where
    "storage_balance_rule blk m (map label g) i_n o_n (hd g) (hd (TIMESTEPS m)) = Inr c"
    by (blast dest: Constraint_rule_calls)
  with storage_balance_rule_number [OF ti, of blk "map label g" i_n o_n "hd g"
      "hd (TIMESTEPS m)"]
  show ?thesis by simp
qed

lemma list_comprehension_calls:
  "list_comprehension f xs = Inr ys \<Longrightarrow> x \<in> set xs \<Longrightarrow> \<exists>y. f x = Inr y"
proof (induction xs arbitrary: ys)
  case Nil
  then show ?case by simp
next
  case (Cons a xs)
  then show ?case
    by (auto simp: and_then_def split: sum.splits)
qed

lemma init_blocks_created:
  assumes "OperationalModel_init e kw st = (Inr mdl, st')"
    and "cls \<in> set (st' CONSTRAINT_GROUPS)"
  shows "\<exists>b. create_block e (parent mdl) cls = Inr b"
proof -
  from assms(1) obtain ti where ti: "kw_timeindex kw = Some ti"
    by (auto simp: OperationalModel_init_def split: option.splits)
  from assms(1) ti have st': "st' = list_extend st CONSTRAINT_GROUPS
         (case kw_constraint_groups kw of None \<Rightarrow> [] | Some gs \<Rightarrow> gs)"
    using init_store [OF ti, of e st] by simp
  from assms(1) ti obtain bs where
    bs: "list_comprehension
        (\<lambda>cls. and_then (create_block e (parent mdl) cls) (\<lambda>b. Inr (cls, b)))
        (st' CONSTRAINT_GROUPS) = Inr bs"
    unfolding st'
    by (auto simp: OperationalModel_init_def Let_def and_then_def split: sum.splits)
  from list_comprehension_calls [OF bs assms(2)] show ?thesis
    by (auto simp: and_then_def split: sum.splits)
qed

lemma OperationalModel_without_storage_balance:
  assumes ret: "OperationalModel_init e kw st = (Inr mdl, st')"
  shows "(GenericStorageBlock \<in> set (st' CONSTRAINT_GROUPS)
            \<longrightarrow> groups_GenericStorageBlock e = None \<or> groups_GenericStorageBlock e = Some [])
       \<and> (GenericInvestmentStorageBlock \<in> set (st' CONSTRAINT_GROUPS)
            \<longrightarrow> groups_GenericInvestmentStorageBlock e = None
                \<or> groups_GenericInvestmentStorageBlock e = Some [])"
proof -
  from init_returns [OF ret] obtain x where
    x: "timeincrement (parent mdl) = PyNumber x" and ts: "TIMESTEPS (parent mdl) \<noteq> []"
    by blast
  have a: "groups_GenericStorageBlock e = None \<or> groups_GenericStorageBlock e = Some []"
    if "GenericStorageBlock \<in> set (st' CONSTRAINT_GROUPS)"
  proof (rule ccontr)
    assume "\<not> ?thesis"
    then obtain g where g: "groups_GenericStorageBlock e = Some g" "g \<noteq> []" by auto
    from init_blocks_created [OF ret that] g(1)
    obtain b where "storage_block_create GenericStorageBlock (parent mdl) (Some g) = Inr b"
      by (auto simp: create_block_def GenericStorageBlock_create_def and_then_def
          split: sum.splits)
    with storage_block_create_number [OF x g(2) ts, of GenericStorageBlock]
    show False by simp
  qed
  have b: "groups_GenericInvestmentStorageBlock e = None
      \<or> groups_GenericInvestmentStorageBlock e = Some []"
    if "GenericInvestmentStorageBlock \<in> set (st' CONSTRAINT_GROUPS)"
  proof (rule ccontr)
    assume "\<not> ?thesis"
    then obtain g where g: "groups_GenericInvestmentStorageBlock e = Some g" "g \<noteq> []"
      by auto
    from init_blocks_created [OF ret that] g(1)
    obtain b where
      "storage_block_create GenericInvestmentStorageBlock (parent mdl) (Some g) = Inr b"
      by (auto simp: create_block_def GenericInvestmentStorageBlock_create_def and_then_def
          split: sum.splits)
    with storage_block_create_number [OF x g(2) ts, of GenericInvestmentStorageBlock]
    show False by simp
  qed
  from a b show ?thesis by blast
qed

text \<open>
  For a model whose \<^verbatim>\<open>timeincrement\<close> can be subscripted, a rule that returns
  returns the equality of the specification: the level at \<open>t\<close> equals the level at the
  previous timestep times \<open>1 - loss\<close>, plus the inflow of the first input times its
  conversion factor times the duration, minus the outflow of the first output divided
  by its conversion factor times the duration.
\<close>

lemma storage_balance_rule_meaning:
  assumes "storage_balance_rule blk m S i_n o_n n t = Inr c"
  shows "\<exists>p loss source icf target ocf duration.
      previous_timesteps_dict m t = Some p
      \<and> subscript (capacity_loss n) t = Inr loss
      \<and> i_n (label n) = Some source
      \<and> subscript (inflow_conversion_factor n) t = Inr icf
      \<and> o_n (label n) = Some target
      \<and> subscript (outflow_conversion_factor n) t = Inr ocf \<and> ocf \<noteq> 0
      \<and> subscript (timeincrement m) t = Inr duration
      \<and> sense_of c = EQ
      \<and> (\<forall>v. satisfies v c \<longleftrightarrow>
             balance_equation v blk (label n) source target t p loss icf ocf duration)"
proof -
  from assms obtain p loss source icf target ocf duration where
    r: "previous_timesteps_dict m t = Some p"
      "subscript (capacity_loss n) t = Inr loss"
      "i_n (label n) = Some source"
      "subscript (inflow_conversion_factor n) t = Inr icf"
      "o_n (label n) = Some target"
      "subscript (outflow_conversion_factor n) t = Inr ocf" "ocf \<noteq> 0"
      "subscript (timeincrement m) t = Inr duration"
    and c: "c = Constraint
               (\<lambda>v. 0 + v (var_capacity blk (label n) t)
                      + - v (var_capacity blk (label n) p) * (1 - loss)
                      + (- v (var_flow source (label n) t) * icf) * duration
                      + (v (var_flow (label n) target t) / ocf) * duration)
               EQ (\<lambda>v. 0)"
    by (auto simp: storage_balance_rule_def and_then_def dict_getitem_def flow_def
        capacity_def split: sum.splits option.splits if_splits)
  have "satisfies v c \<longleftrightarrow>
      balance_equation v blk (label n) source target t p loss icf ocf duration" for v
    unfolding c balance_equation_def by (simp add: algebra_simps)
  with r c show ?thesis by auto
qed

lemma timesteps_3: "timesteps 3 = [0, 1, 2]"
  by (simp add: timesteps_def upt_rec)

lemma previous_timesteps_3: "previous_timesteps 3 = Inr [0 \<mapsto> 2, 1 \<mapsto> 0, 2 \<mapsto> 1]"
  by (simp add: previous_timesteps_def timesteps_3 list_getitem_def list_setitem_def)
    (auto simp: fun_eq_iff)

lemma example_storage_balance_rule:
  "storage_balance_rule GenericStorageBlock example_storage_model [''storage'']
     [''storage'' \<mapsto> ''my_bus''] [''storage'' \<mapsto> ''my_bus''] example_storage 0 = Inl TypeError"
  by (simp add: storage_balance_rule_def example_storage_model_def example_storage_def
      and_then_def capacity_def dict_getitem_def subscript_def Sequence_def
      Sequence_scalar_def getitem_def list_getitem_def list_repeat_def flow_def Let_def)

lemma example_storage_block_create:
  "GenericStorageBlock_create example_storage_model (Some [example_storage]) = Inl TypeError"
proof -
  have l: "label example_storage = ''storage''"
    "inputs example_storage = [(''my_bus'', 0)]" "outputs example_storage = [(''my_bus'', 1)]"
    by (simp_all add: example_storage_def)
  have ts: "TIMESTEPS example_storage_model = [0, 1, 2]"
    by (simp add: example_storage_model_def)
  show ?thesis
    by (simp add: GenericStorageBlock_create_def storage_block_create_def l ts
        list_getitem_def and_then_def example_storage_balance_rule)
qed


text \<open>
  Claim C1, at the input where the code departs from it: the energy system of the
  doctest's storage, an hourly time index of three entries and
  \<^verbatim>\<open>constraint_groups=[GenericStorageBlock]\<close>. The construction of the model raises
  TypeError in the balance rule, at \<^verbatim>\<open>m.timeincrement[t]\<close>; no balance constraint is
  assembled.
\<close>

theorem storage_balance_not_assembled:
  "fst (OperationalModel_init example_storage_es example_kwargs_storage_block module_lists)
     = Inl TypeError"
proof -
  have m: "\<lparr>TIMESTEPS = timesteps 3,
            timeincrement = PyNumber (real_of_int 3600000000000 / 3600000000000),
            previous_timesteps_dict = [0 \<mapsto> 2, 1 \<mapsto> 0, 2 \<mapsto> 1],
            FLOWS = flows_of example_storage_es,
            es_groups = groups_label example_storage_es\<rparr> = example_storage_model"
    by (simp add: example_storage_model_def timesteps_3 flows_of_def example_storage_es_def)
  have g: "groups_GenericStorageBlock example_storage_es = Some [example_storage]"
    by (simp add: example_storage_es_def)
  have cb: "create_block example_storage_es example_storage_model GenericStorageBlock
      = Inl TypeError"
    by (simp add: create_block_def g example_storage_block_create and_then_def)
  have sb: "create_block example_storage_es example_storage_model cls = Inr solph_block"
    if "cls \<in> set (module_lists CONSTRAINT_GROUPS)" for cls
    using that by (auto simp: module_lists_def create_block_def)
  have lc: "list_comprehension
      (\<lambda>cls. and_then (create_block example_storage_es example_storage_model cls)
           (\<lambda>b. Inr (cls, b)))
      (module_lists CONSTRAINT_GROUPS @ [GenericStorageBlock]) = Inl TypeError"
    by (simp add: module_lists_def create_block_def and_then_def g example_storage_block_create)
  show ?thesis
    unfolding OperationalModel_init_def
    by (simp add: example_kwargs_storage_block_def example_kwargs_plain_def
        example_timeindex_def previous_timesteps_3 Let_def list_extend_def
        and_then_def m [simplified] lc [unfolded and_then_def])
qed


section \<open>Properties of the block of extraction turbines\<close>

text \<open>
  Every entry of \<^verbatim>\<open>input_output_relation\<close> is indexed by the last turbine of the
  group: a turbine with another label has no entry.
\<close>

lemma add_relations_keys:
  "add_relations index relation ks acc = Inr cs \<Longrightarrow> cs k = Some c \<Longrightarrow>
     acc k \<noteq> None \<or> (\<exists>t g. (t, g) \<in> set ks \<and> k = index g t)"
proof (induction ks arbitrary: acc)
  case Nil
  then show ?case by simp
next
  case (Cons a ks)
  obtain t0 g0 where a: "a = (t0, g0)" by (cases a)
  from Cons.prems(1) a obtain c0 where c0: "relation g0 t0 = Inr c0"
    and rest: "add_relations index relation ks (acc(index g0 t0 \<mapsto> c0)) = Inr cs"
    by (auto simp: and_then_def split: sum.splits)
  from Cons.IH [OF rest Cons.prems(2)] a show ?case
    by (auto split: if_splits)
qed

lemma input_output_relation_indexed_by_last:
  assumes built: "ExtractionTurbineCHPBlock_create m (Some g) = Inr (Some b)"
    and entry: "input_output_relation b (l, t) = Some c"
  shows "g \<noteq> [] \<and> l = etchp_label (last g)"
proof -
  from built obtain gd where
    gd: "list_comprehension (\<lambda>n. and_then (derive m n) (\<lambda>d. Inr (n, d))) g = Inr gd"
    and io: "add_relations (\<lambda>x t. (etchp_label (fst (last gd)), t))
        (input_output_relation_at m) (List.product (TIMESTEPS m) gd) Map.empty
        = Inr (input_output_relation b)"
    by (auto simp: ExtractionTurbineCHPBlock_create_def and_then_def split: sum.splits)
  from list_comprehension_tagged [OF gd] have g: "map fst gd = g" .
  from add_relations_keys [OF io entry] obtain t' x where
    x: "(t', x) \<in> set (List.product (TIMESTEPS m) gd)"
    and k: "(l, t) = (etchp_label (fst (last gd)), t')"
    by auto
  from x have ne: "gd \<noteq> []" by auto
  with g have "g \<noteq> []" by auto
  moreover from ne g have "fst (last gd) = last g" by (auto simp: last_map [symmetric])
  ultimately show ?thesis using k by simp
qed

text \<open>
  Claim C2, at the input where the code departs from it: two turbines in the group, one
  timestep. The block is built; \<^verbatim>\<open>input_output_relation\<close> has no entry for the first
  turbine, \<open>chp1\<close>, and one entry for the second, while \<^verbatim>\<open>out_flow_relation\<close>, whose
  rule adds under \<^verbatim>\<open>(g, t)\<close>, has an entry for each.
\<close>

theorem input_output_relation_misses_turbine:
  "\<exists>b. ExtractionTurbineCHPBlock_create example_turbine_model
          (Some [example_turbine_1, example_turbine_2]) = Inr (Some b)
     \<and> input_output_relation b (''chp1'', 0) = None
     \<and> input_output_relation b (''chp2'', 0) \<noteq> None
     \<and> out_flow_relation b (''chp1'', 0) \<noteq> None
     \<and> out_flow_relation b (''chp2'', 0) \<noteq> None"
  by (simp add: ExtractionTurbineCHPBlock_create_def example_turbine_model_def
      example_turbine_1_def example_turbine_2_def derive_def and_then_def list_getitem_def
      dict_getitem_def conversion_factor_at_def subscript_def Sequence_def
      Sequence_scalar_def getitem_def list_repeat_def py_div_def Let_def
      input_output_relation_at_def out_flow_relation_at_def flow_def)


section \<open>Properties of \<^verbatim>\<open>OperationalModel.results\<close>\<close>

text \<open>
  The name \<^verbatim>\<open>Storage\<close> is not bound in plumbing.py. The pass of the loop for a node
  never returns: it raises NameError at line 315, unless a lookup of a flow of the node
  raised before. So \<^verbatim>\<open>results\<close> raises for every model that has a node.
\<close>

lemma global_name_Storage: "global_name ''Storage'' = Inl NameError"
  by (simp add: global_name_def module_names_def)

lemma results_node_raises: "\<exists>e. results_node sol n r = Inl e"
  by (auto simp: results_node_def and_then_def global_name_Storage split: sum.splits)

lemma results_raises:
  assumes "solved_nodes sol \<noteq> []"
  shows "\<exists>e. results sol = Inl e"
proof -
  from assms obtain n ns where ns: "solved_nodes sol = n # ns" by (cases "solved_nodes sol") auto
  from results_node_raises [of sol n Map.empty] obtain e where
    "results_node sol n Map.empty = Inl e" ..
  with ns show ?thesis by (simp add: results_def and_then_def)
qed

text \<open>
  Claim C3, at the inputs where the code departs from it: a solved model of one timestep
  with a bus and a plain storage, and one with a bus, a plain storage and an investment
  storage. In both, \<^verbatim>\<open>results\<close> reads the flow series of the first node and then raises
  NameError at \<^verbatim>\<open>isinstance(node, Storage)\<close>; it returns no level series.
\<close>

theorem results_raises_NameError:
  "results example_plain_solution = Inl NameError
   \<and> results example_mixed_solution = Inl NameError"
  by (simp add: results_def example_plain_solution_def example_mixed_solution_def
      results_node_def and_then_def flow_series_def dict_getitem_def set_series_def
      global_name_Storage)

end
